theory Spec2Isabelle
  imports Main
begin

section \<open>JavaScript values\<close>

text \<open>
  The handler of \<^verbatim>\<open>POST /mcp\<close> in \<^verbatim>\<open>src/http-server.ts\<close> works on
  parsed JSON: the request body, the tool arguments and the objects the Trello client
  returns. A value is one of JavaScript's JSON-shaped values, with \<open>Undefined\<close> for
  a property that is absent. Numbers are the integers that JavaScript holds exactly and
  prints in decimal digits (JSON-RPC ids are integers or strings); an object is its list
  of properties in insertion order.
\<close>

datatype jv = Undefined | Null | Bool bool | Num int | Str string
  | Arr "jv list" | Obj "(string \<times> jv) list"

type_synonym obj = "(string \<times> jv) list"

text \<open>Truthiness, as \<^verbatim>\<open>!x\<close>, \<^verbatim>\<open>x || y\<close> and \<^verbatim>\<open>if (x)\<close> test it.\<close>

fun truthy :: "jv \<Rightarrow> bool" where
  "truthy Undefined = False"
| "truthy Null = False"
| "truthy (Bool b) = b"
| "truthy (Num n) = (n \<noteq> 0)"
| "truthy (Str s) = (s \<noteq> [])"
| "truthy (Arr xs) = True"
| "truthy (Obj kvs) = True"

text \<open>\<^verbatim>\<open>x || y\<close> on values.\<close>

definition or_else :: "jv \<Rightarrow> jv \<Rightarrow> jv" where
  "or_else x y = (if truthy x then x else y)"

text \<open>
  Property access \<^verbatim>\<open>v.k\<close> on a value that is neither undefined nor null. The keys
  the handler reads (\<^verbatim>\<open>name\<close>, \<^verbatim>\<open>arguments\<close>, \<^verbatim>\<open>boardId\<close>, ...) are own
  properties of objects only: on a string, number, boolean or array they are undefined.
\<close>

fun get :: "jv \<Rightarrow> string \<Rightarrow> jv" where
  "get (Obj kvs) k = (case map_of kvs k of None \<Rightarrow> Undefined | Some v \<Rightarrow> v)"
| "get v k = Undefined"

subsection \<open>Conversion to a string (template literals)\<close>

definition digit_char :: "nat \<Rightarrow> char" where
  "digit_char d = char_of (48 + d)"

fun digits :: "nat \<Rightarrow> string" where
  "digits n = (if n < 10 then [digit_char n] else digits (n div 10) @ [digit_char (n mod 10)])"

declare digits.simps [simp del]

definition show_int :: "int \<Rightarrow> string" where
  "show_int i = (if i < 0 then CHR ''-'' # digits (nat (- i)) else digits (nat i))"

fun join :: "string \<Rightarrow> string list \<Rightarrow> string" where
  "join sep [] = []"
| "join sep [x] = x"
| "join sep (x # y # ys) = x @ sep @ join sep (y # ys)"

text \<open>
  \<^verbatim>\<open>`${v}`\<close>: an array joins its elements with commas (null and undefined elements
  give the empty string), an object gives \<^verbatim>\<open>[object Object]\<close>.
\<close>

fun js_string :: "jv \<Rightarrow> string" where
  "js_string Undefined = ''undefined''"
| "js_string Null = ''null''"
| "js_string (Bool b) = (if b then ''true'' else ''false'')"
| "js_string (Num n) = show_int n"
| "js_string (Str s) = s"
| "js_string (Arr xs) =
     join '','' (map (\<lambda>x. if x = Undefined \<or> x = Null then [] else js_string x) xs)"
| "js_string (Obj kvs) = ''[object Object]''"

text \<open>
  The conversion throws a type error on an object with an own \<^verbatim>\<open>toString\<close>
  property (a parsed JSON value is never callable, and no other conversion is left), and
  on an array that has such an element.
\<close>

fun convertible :: "jv \<Rightarrow> bool" where
  "convertible (Obj kvs) = (map_of kvs ''toString'' = None)"
| "convertible (Arr xs) = list_all (\<lambda>x. x = Undefined \<or> x = Null \<or> convertible x) xs"
| "convertible v = True"

subsection \<open>\<^verbatim>\<open>JSON.stringify\<close>\<close>

definition hex_char :: "nat \<Rightarrow> char" where
  "hex_char d = (if d < 10 then char_of (48 + d) else char_of (87 + d))"

definition escape_char :: "char \<Rightarrow> string" where
  "escape_char c =
     (let n = (of_char c :: nat) in
      if n = 0x22 then [CHR 0x5C, CHR 0x22]
      else if n = 0x5C then [CHR 0x5C, CHR 0x5C]
      else if n = 8 then [CHR 0x5C, CHR ''b'']
      else if n = 12 then [CHR 0x5C, CHR ''f'']
      else if n = 10 then [CHR 0x5C, CHR ''n'']
      else if n = 13 then [CHR 0x5C, CHR ''r'']
      else if n = 9 then [CHR 0x5C, CHR ''t'']
      else if n < 0x20 then [CHR 0x5C, CHR ''u'', CHR ''0'', CHR ''0'',
                             hex_char (n div 16), hex_char (n mod 16)]
      else [c])"

definition quote :: "string \<Rightarrow> string" where
  "quote s = CHR 0x22 # concat (map escape_char s) @ [CHR 0x22]"

text \<open>
  The text of a value that is not undefined at the top. Inside an array an undefined
  element is written \<^verbatim>\<open>null\<close>; inside an object a property whose value is
  undefined is left out.
\<close>

fun ser :: "jv \<Rightarrow> string" where
  "ser Undefined = ''null''"
| "ser Null = ''null''"
| "ser (Bool b) = (if b then ''true'' else ''false'')"
| "ser (Num n) = show_int n"
| "ser (Str s) = quote s"
| "ser (Arr xs) = ''['' @ join '','' (map ser xs) @ '']''"
| "ser (Obj kvs) =
     ''{'' @ join '','' (map (\<lambda>(k, v). quote k @ '':'' @ ser v)
                          (filter (\<lambda>(k, v). v \<noteq> Undefined) kvs)) @ ''}''"

text \<open>\<^verbatim>\<open>JSON.stringify(v)\<close>: undefined for undefined, a string otherwise.\<close>

definition JSON_stringify :: "jv \<Rightarrow> jv" where
  "JSON_stringify v = (if v = Undefined then Undefined else Str (ser v))"

subsection \<open>Strings: \<^verbatim>\<open>includes\<close>\<close>

text \<open>
  A string is the list of the bytes of its text in UTF-8.
  \<^verbatim>\<open>s.includes(q)\<close>: some position \<open>i\<close> of \<open>s\<close>, from 0 to
  \<open>length s - length q\<close>, at which \<open>q\<close> is read. (\<^verbatim>\<open>toLowerCase\<close>, the
  other string method the handler calls, is the case mapping of the JavaScript runtime:
  it is a parameter of the model, declared with the Trello client below.)
\<close>

definition includes_str :: "string \<Rightarrow> string \<Rightarrow> bool" where
  "includes_str s q =
     (length q \<le> length s \<and>
      list_ex (\<lambda>i. take (length q) (drop i s) = q) [0 ..< Suc (length s - length q)])"

section \<open>Exceptions, promises and asynchronous control\<close>

text \<open>
  A thrown value is an \<^verbatim>\<open>Error\<close> (or a subclass such as \<^verbatim>\<open>TypeError\<close>) with
  its message, or some other value. \<^verbatim>\<open>error instanceof Error\<close> and
  \<^verbatim>\<open>error.message\<close> read it.
\<close>

datatype exn = Error string | TypeError string | NonError jv

fun instanceof_Error :: "exn \<Rightarrow> bool" where
  "instanceof_Error (Error m) = True"
| "instanceof_Error (TypeError m) = True"
| "instanceof_Error (NonError v) = False"

fun message_of :: "exn \<Rightarrow> string" where
  "message_of (Error m) = m"
| "message_of (TypeError m) = m"
| "message_of (NonError v) = []"

text \<open>The template literal \<^verbatim>\<open>`${v}`\<close>, which may throw.\<close>

definition template :: "jv \<Rightarrow> exn + string" where
  "template v =
     (if convertible v then Inr (js_string v)
      else Inl (TypeError ''Cannot convert object to primitive value''))"

text \<open>
  Time is counted in milliseconds. A promise settles after some delay, rejected
  (\<open>Inl\<close>) or fulfilled (\<open>Inr\<close>), or stays pending for ever.
\<close>

datatype 'a step = At nat 'a | Never

type_synonym 'a promise = "(exn + 'a) step"

fun delay :: "nat \<Rightarrow> 'a step \<Rightarrow> 'a step" where
  "delay t (At u r) = At (t + u) r"
| "delay t Never = Never"

text \<open>The calls the handler makes on the Trello client, with their arguments.\<close>

datatype upcall =
    ListBoards
  | GetBoardById jv
  | GetLists jv
  | GetCardsByList jv jv
  | AddCard jv jv
  | GetRecentActivity jv jv
  | UpdateCard jv jv
  | ArchiveCard jv jv
  | MoveCard jv jv jv
  | AddList jv jv
  | ArchiveList jv jv
  | GetMyCards
  | AttachImageToCard jv jv jv jv
  | AttachFileToCard jv jv jv jv jv
  | SetActiveBoard jv
  | ListWorkspaces
  | CreateBoard jv
  | SetActiveWorkspace jv
  | ListBoardsInWorkspace jv
  | GetCard jv jv
  | AddCommentToCard jv jv
  | UpdateCommentOnCard jv jv
  | GetChecklistItems jv jv
  | AddChecklistItem jv jv jv
  | FindChecklistItemsByDescription jv jv
  | GetAcceptanceCriteria jv
  | GetChecklistByName jv jv

text \<open>
  What the handler runs against and \<^verbatim>\<open>src/http-server.ts\<close> does not hold is a
  parameter of the model. The Trello client (\<^verbatim>\<open>trello-client.ts\<close>) is the external
  collaborator of the handler: what each of its asynchronous methods does when called,
  and the active board id it holds when the request arrives. The three methods whose
  results the handler inspects return objects; every other result is passed through as
  it is. The last field is \<^verbatim>\<open>String.prototype.toLowerCase\<close> of the JavaScript
  runtime, whose Unicode case mapping is a table of the runtime and not of the source.
\<close>

record upstream =
  activeBoardId :: jv
  listBoards :: "obj list promise"
  getBoardById :: "jv \<Rightarrow> obj promise"
  getLists :: "jv \<Rightarrow> obj list promise"
  other :: "upcall \<Rightarrow> jv promise"
  toLowerCase :: "string \<Rightarrow> string"

text \<open>
  A run of asynchronous code: the client calls made, in order, and how the run ends
  (the time at which it throws or returns, or never when an awaited promise stays
  pending).
\<close>

type_synonym 'a comp = "upcall list \<times> (exn + 'a) step"

definition pure :: "'a \<Rightarrow> 'a comp" where
  "pure v = ([], At 0 (Inr v))"

definition throw :: "exn \<Rightarrow> 'a comp" where
  "throw e = ([], At 0 (Inl e))"

text \<open>Synchronous code that may throw.\<close>

definition lift :: "exn + 'a \<Rightarrow> 'a comp" where
  "lift r = ([], At 0 r)"

text \<open>\<^verbatim>\<open>await trelloClient.m(...)\<close>: the call is made and its promise awaited.\<close>

definition await :: "upcall \<Rightarrow> 'a promise \<Rightarrow> 'a comp" where
  "await c p = ([c], p)"

text \<open>Sequencing: the rest runs when the first part has returned a value.\<close>

definition bind :: "'a comp \<Rightarrow> ('a \<Rightarrow> 'b comp) \<Rightarrow> 'b comp" where
  "bind m f =
     (case m of
        (cs, Never) \<Rightarrow> (cs, Never)
      | (cs, At t (Inl e)) \<Rightarrow> (cs, At t (Inl e))
      | (cs, At t (Inr v)) \<Rightarrow> (case f v of (cs', r) \<Rightarrow> (cs @ cs', delay t r)))"

text \<open>\<^verbatim>\<open>try { m } catch (e) { h e }\<close>.\<close>

definition try_catch :: "'a comp \<Rightarrow> (exn \<Rightarrow> 'a comp) \<Rightarrow> 'a comp" where
  "try_catch m h =
     (case m of
        (cs, At t (Inl e)) \<Rightarrow> (case h e of (cs', r) \<Rightarrow> (cs @ cs', delay t r))
      | _ \<Rightarrow> m)"

text \<open>
  \<^verbatim>\<open>Promise.race([p, timeoutPromise])\<close> where the timeout promise rejects with
  \<open>e\<close> after \<open>ms\<close> milliseconds: the promise wins when it settles before the timer
  fires.
\<close>

definition race_timeout :: "nat \<Rightarrow> exn \<Rightarrow> 'a comp \<Rightarrow> 'a comp" where
  "race_timeout ms e m =
     (case m of
        (cs, At t r) \<Rightarrow> if t < ms then (cs, At t r) else (cs, At ms (Inl e))
      | (cs, Never) \<Rightarrow> (cs, At ms (Inl e)))"

section \<open>The response object\<close>

record http_response =
  status :: nat
  body :: jv

text \<open>
  How the \<^verbatim>\<open>switch\<close> of the handler is left: with \<^verbatim>\<open>result\<close> assigned
  (\<^verbatim>\<open>break\<close>), or by \<^verbatim>\<open>return res.status(s).json(b)\<close>.
\<close>

datatype control = Fallthrough jv | Return http_response

text \<open>
  Express's response: the responses written to the client, and the errors that escaped
  the handler. \<^verbatim>\<open>res.headersSent\<close> holds once a response has been written.
  \<^verbatim>\<open>res.status(s).json(b)\<close> writes the response; on a response whose headers are
  sent, setting the content type throws and nothing is written.
\<close>

record res =
  sent :: "http_response list"
  escaped :: "exn list"

definition headersSent :: "res \<Rightarrow> bool" where
  "headersSent rs = (sent rs \<noteq> [])"

definition res_json :: "http_response \<Rightarrow> res \<Rightarrow> exn + res" where
  "res_json r rs =
     (if headersSent rs
      then Inl (Error ''Cannot set headers after they are sent to the client'')
      else Inr (rs\<lparr>sent := sent rs @ [r]\<rparr>))"

section \<open>The handler of \<^verbatim>\<open>POST /mcp\<close>\<close>

subsection \<open>Protocol-meta results\<close>

definition initialize_result :: jv where
  "initialize_result =
     Obj [(''protocolVersion'', Str ''2024-11-05''),
          (''capabilities'', Obj [(''tools'', Obj [])]),
          (''serverInfo'', Obj [(''name'', Str ''mcp-server-trello''),
                               (''version'', Str ''1.3.1'')])]"

definition schema_uri :: string where
  "schema_uri = ''https://json-schema.org/draft/2020-12/schema''"

text \<open>One tool descriptor of the catalog, its fields in the order of the source.\<close>

definition descriptor :: "string \<Rightarrow> string \<Rightarrow> obj \<Rightarrow> string list \<Rightarrow> jv list \<Rightarrow> jv" where
  "descriptor nm description properties required examples =
     Obj [(''annotations'', Null),
          (''name'', Str nm),
          (''description'', Str description),
          (''inputSchema'',
             Obj [(''$schema'', Str schema_uri),
                  (''type'', Str ''object''),
                  (''properties'', Obj properties),
                  (''required'', Arr (map Str required)),
                  (''additionalProperties'', Bool False),
                  (''examples'', Arr examples)])]"

definition string_property :: "string \<Rightarrow> string list \<Rightarrow> jv" where
  "string_property description examples =
     Obj [(''type'', Str ''string''),
          (''description'', Str description),
          (''examples'', Arr (map Str examples))]"

definition search_descriptor :: jv where
  \<open>search_descriptor =
     descriptor ''search''
       ''Search for content in Trello boards, lists, and cards. Use this to find specific boards or content. Example: search for "SAV" to find all boards containing "SAV" in their name or description.''
       [(''query'', string_property
           ''Search query to find boards, lists, or cards. Examples: "SAV", "projet", "Maxence", "urgent"''
           [''SAV'', ''projet'', ''urgent'', ''finance''])]
       [''query'']
       [Obj [(''query'', Str ''SAV'')], Obj [(''query'', Str ''projet'')],
        Obj [(''query'', Str ''urgent'')]]\<close>

definition fetch_descriptor :: jv where
  \<open>fetch_descriptor =
     descriptor ''fetch''
       ''Fetch detailed information about a specific Trello resource (board, list, or card) using its ID. Example: fetch a board by its ID to get full details including description, URL, and metadata.''
       [(''id'', string_property
           ''The unique ID of the Trello resource to fetch (board, list, or card ID). Example: "5f8b2c1a3d4e5f6a7b8c9d0e"''
           [''5bed4a25a96b2a582160d31b'', ''5d0cb0d644b32880ea8268ea''])]
       [''id'']
       [Obj [(''id'', Str ''5bed4a25a96b2a582160d31b'')],
        Obj [(''id'', Str ''5d0cb0d644b32880ea8268ea'')]]\<close>

definition list_boards_descriptor :: jv where
  \<open>list_boards_descriptor =
     descriptor ''list_boards''
       ''List all accessible Trello boards. Returns the 5 most recent open boards with basic information. Use this as the first step to see what boards are available. Example: call list_boards to see all your Trello boards.''
       [] [] [Obj []]\<close>

definition get_cards_by_list_id_descriptor :: jv where
  \<open>get_cards_by_list_id_descriptor =
     descriptor ''get_cards_by_list_id''
       ''Get all cards from a specific Trello list. Use this to see what tasks or items are in a list. Example: get all cards from a "To Do" list to see pending tasks.''
       [(''listId'', string_property
           ''The ID of the Trello list to get cards from. Example: "5f8b2c1a3d4e5f6a7b8c9d0f"''
           [''5f8b2c1a3d4e5f6a7b8c9d0f'', ''5a1b2c3d4e5f6a7b8c9d0e1f''])]
       [''listId'']
       [Obj [(''listId'', Str ''5f8b2c1a3d4e5f6a7b8c9d0f'')],
        Obj [(''listId'', Str ''5a1b2c3d4e5f6a7b8c9d0e1f'')]]\<close>

definition get_lists_descriptor :: jv where
  \<open>get_lists_descriptor =
     descriptor ''get_lists''
       ''Get all lists from a specific Trello board. Use this to see the structure of a board and find list IDs. Example: get lists from a project board to see "To Do", "In Progress", "Done" columns.''
       [(''boardId'', string_property
           ''The ID of the Trello board to get lists from. Example: "5f8b2c1a3d4e5f6a7b8c9d0e"''
           [''5bed4a25a96b2a582160d31b'', ''5d0cb0d644b32880ea8268ea''])]
       [''boardId'']
       [Obj [(''boardId'', Str ''5bed4a25a96b2a582160d31b'')],
        Obj [(''boardId'', Str ''5d0cb0d644b32880ea8268ea'')]]\<close>

definition create_card_descriptor :: jv where
  \<open>create_card_descriptor =
     descriptor ''create_card''
       ''Create a new card in a Trello list. Use this to add new tasks or items to a list. Example: create a card "Fix bug in login" in the "To Do" list.''
       [(''listId'', string_property
           ''The ID of the Trello list where to create the card. Example: "5f8b2c1a3d4e5f6a7b8c9d0f"''
           [''5f8b2c1a3d4e5f6a7b8c9d0f'', ''5a1b2c3d4e5f6a7b8c9d0e1f'']),
        (''name'', string_property
           ''The name/title of the new card. Example: "Fix bug in login", "Review document", "Call client"''
           [''Fix bug in login'', ''Review document'', ''Call client'', ''Update website'']),
        (''desc'', string_property
           ''Optional description for the new card. Example: "Fix the authentication issue reported by users"''
           [''Fix the authentication issue reported by users'',
            ''Review the contract before signing'',
            ''Call to discuss project timeline''])]
       [''listId'', ''name'']
       [Obj [(''listId'', Str ''5f8b2c1a3d4e5f6a7b8c9d0f''), (''name'', Str ''Fix bug in login''),
             (''desc'', Str ''Fix the authentication issue reported by users'')],
        Obj [(''listId'', Str ''5a1b2c3d4e5f6a7b8c9d0e1f''), (''name'', Str ''Review document''),
             (''desc'', Str ''Review the contract before signing'')],
        Obj [(''listId'', Str ''5f8b2c1a3d4e5f6a7b8c9d0f''), (''name'', Str ''Call client'')]]\<close>

definition tools_list_result :: jv where
  "tools_list_result =
     Obj [(''tools'', Arr [search_descriptor, fetch_descriptor, list_boards_descriptor,
                           get_cards_by_list_id_descriptor, get_lists_descriptor,
                           create_card_descriptor])]"

subsection \<open>The tools of \<^verbatim>\<open>tools/call\<close>\<close>

text \<open>A field of an object the client returned.\<close>

definition field :: "obj \<Rightarrow> string \<Rightarrow> jv" where
  "field b k = get (Obj b) k"

text \<open>
  \<^verbatim>\<open>e.toLowerCase()\<close>, where \<open>expr\<close> is the text of \<^verbatim>\<open>e\<close>: a type error when
  the value is undefined or null (no property can be read) or is not a string (it has
  no such method).
\<close>

fun toLowerCase_call :: "upstream \<Rightarrow> string \<Rightarrow> jv \<Rightarrow> exn + string" where
  "toLowerCase_call up expr (Str s) = Inr (toLowerCase up s)"
| "toLowerCase_call up expr Undefined =
     Inl (TypeError ''Cannot read properties of undefined (reading 'toLowerCase')'')"
| "toLowerCase_call up expr Null =
     Inl (TypeError ''Cannot read properties of null (reading 'toLowerCase')'')"
| "toLowerCase_call up expr v = Inl (TypeError (expr @ ''.toLowerCase is not a function''))"

text \<open>
  The predicate of the \<^verbatim>\<open>filter\<close> of \<^verbatim>\<open>search\<close>:
  \<^verbatim>\<open>board.name.toLowerCase().includes(query) || board.desc.toLowerCase().includes(query)\<close>.
\<close>

definition board_matches :: "upstream \<Rightarrow> string \<Rightarrow> obj \<Rightarrow> exn + bool" where
  "board_matches up query board =
     (case toLowerCase_call up ''board.name'' (field board ''name'') of
        Inl e \<Rightarrow> Inl e
      | Inr n \<Rightarrow>
          if includes_str n query then Inr True
          else (case toLowerCase_call up ''board.desc'' (field board ''desc'') of
                  Inl e \<Rightarrow> Inl e
                | Inr d \<Rightarrow> Inr (includes_str d query)))"

text \<open>\<^verbatim>\<open>allBoards.filter(...)\<close>, left at the first board on which the predicate throws.\<close>

fun filter_boards :: "upstream \<Rightarrow> string \<Rightarrow> obj list \<Rightarrow> exn + obj list" where
  "filter_boards up query [] = Inr []"
| "filter_boards up query (board # boards) =
     (case board_matches up query board of
        Inl e \<Rightarrow> Inl e
      | Inr keep \<Rightarrow>
          (case filter_boards up query boards of
             Inl e \<Rightarrow> Inl e
           | Inr rest \<Rightarrow> Inr (if keep then board # rest else rest)))"

definition search_entry :: "obj \<Rightarrow> jv" where
  "search_entry board =
     Obj [(''id'', field board ''id''),
          (''title'', field board ''name''),
          (''url'', field board ''url'')]"

definition search_tool :: "upstream \<Rightarrow> jv \<Rightarrow> control comp" where
  "search_tool up toolArguments =
     bind (await ListBoards (listBoards up)) (\<lambda>allBoards.
     bind (lift (toLowerCase_call up ''toolArguments.query'' (get toolArguments ''query'')))
       (\<lambda>query.
     bind (lift (filter_boards up query allBoards)) (\<lambda>matched.
       pure (Fallthrough
         (JSON_stringify (Obj [(''results'', Arr (map search_entry matched))]))))))"

text \<open>\<^verbatim>\<open>throw new Error(`No resource found with ID ${id}`)\<close>.\<close>

definition not_found :: "jv \<Rightarrow> control comp" where
  "not_found ident =
     bind (lift (template ident)) (\<lambda>s. throw (Error (''No resource found with ID '' @ s)))"

text \<open>\<^verbatim>\<open>board.desc || `Tableau Trello: ${board.name}`\<close>.\<close>

definition board_text :: "obj \<Rightarrow> exn + jv" where
  "board_text board =
     (if truthy (field board ''desc'') then Inr (field board ''desc'')
      else (case template (field board ''name'') of
              Inl e \<Rightarrow> Inl e
            | Inr s \<Rightarrow> Inr (Str (''Tableau Trello: '' @ s))))"

definition board_envelope :: "obj \<Rightarrow> jv \<Rightarrow> jv" where
  "board_envelope board text =
     Obj [(''id'', field board ''id''),
          (''title'', field board ''name''),
          (''text'', text),
          (''url'', field board ''url''),
          (''metadata'', Obj [(''type'', Str ''board''),
                             (''closed'', field board ''closed''),
                             (''organization'', field board ''idOrganization'')])]"

definition list_envelope :: "obj \<Rightarrow> string \<Rightarrow> string \<Rightarrow> jv" where
  "list_envelope list listName ident =
     Obj [(''id'', field list ''id''),
          (''title'', field list ''name''),
          (''text'', Str (''Liste Trello: '' @ listName)),
          (''url'', Str (''https://trello.com/b/'' @ ident)),
          (''metadata'', Obj [(''type'', Str ''list''),
                             (''closed'', field list ''closed''),
                             (''boardId'', field list ''idBoard'')])]"

definition fetch_tool :: "upstream \<Rightarrow> jv \<Rightarrow> control comp" where
  "fetch_tool up toolArguments =
     (let id = get toolArguments ''id'' in
      try_catch
        (bind (await (GetBoardById id) (getBoardById up id)) (\<lambda>board.
         bind (lift (board_text board)) (\<lambda>text.
           pure (Fallthrough (JSON_stringify (board_envelope board text))))))
        (\<lambda>error.
           try_catch
             (bind (await (GetLists id) (getLists up id)) (\<lambda>lists.
                case lists of
                  [] \<Rightarrow> not_found id
                | list # _ \<Rightarrow>
                    bind (lift (template (field list ''name''))) (\<lambda>listName.
                    bind (lift (template id)) (\<lambda>ident.
                      pure (Fallthrough (JSON_stringify (list_envelope list listName ident)))))))
             (\<lambda>error2. not_found id)))"

definition trello_timeout_ms :: nat where
  "trello_timeout_ms = 2000"

definition board_summary :: "obj \<Rightarrow> jv" where
  "board_summary board =
     Obj [(''id'', field board ''id''),
          (''name'', field board ''name''),
          (''url'', field board ''shortUrl'')]"

definition boards_failure :: "exn \<Rightarrow> jv" where
  "boards_failure error =
     Obj [(''error'', Str ''Failed to fetch boards''),
          (''message'', Str (if instanceof_Error error then message_of error
                             else ''Unknown error'')),
          (''boards'', Arr [])]"

definition list_boards_tool :: "upstream \<Rightarrow> control comp" where
  "list_boards_tool up =
     try_catch
       (bind (race_timeout trello_timeout_ms (Error ''Trello API timeout'')
                (await ListBoards (listBoards up))) (\<lambda>boards.
          pure (Fallthrough (JSON_stringify
            (Arr (map board_summary
                    (take 5 (filter (\<lambda>board. \<not> truthy (field board ''closed'')) boards))))))))
       (\<lambda>error. pure (Fallthrough (JSON_stringify (boards_failure error))))"

text \<open>A call on one of the client's pass-through methods.\<close>

definition call :: "upstream \<Rightarrow> upcall \<Rightarrow> jv comp" where
  "call up c = await c (other up c)"

definition objects :: "obj list \<Rightarrow> jv" where
  "objects xs = Arr (map Obj xs)"

text \<open>
  The \<^verbatim>\<open>tools/call\<close> case: the tool name is logged (\<^verbatim>\<open>`Tool: ${toolName}`\<close>),
  then the inner \<^verbatim>\<open>switch\<close> selects the tool.
\<close>

definition tools_call :: "upstream \<Rightarrow> jv \<Rightarrow> control comp" where
  "tools_call up params =
     (let toolName = get params ''name'';
          toolArguments = or_else (get params ''arguments'') (Obj [])
      in
      bind (lift (template toolName)) (\<lambda>logged.
      if toolName = Str ''search'' then search_tool up toolArguments
      else if toolName = Str ''fetch'' then fetch_tool up toolArguments
      else if toolName = Str ''list_boards'' then list_boards_tool up
      else if toolName = Str ''get_cards_by_list_id'' then
        bind (call up (GetCardsByList (get toolArguments ''boardId'')
                                      (get toolArguments ''listId'')))
          (\<lambda>cards. pure (Fallthrough (JSON_stringify cards)))
      else if toolName = Str ''get_lists'' then
        bind (await (GetLists (get toolArguments ''boardId''))
                (getLists up (get toolArguments ''boardId'')))
          (\<lambda>lists. pure (Fallthrough (JSON_stringify (objects lists))))
      else if toolName = Str ''create_card'' then
        bind (call up (AddCard (get toolArguments ''boardId'')
                         (Obj [(''listId'', get toolArguments ''listId''),
                               (''name'', get toolArguments ''name''),
                               (''description'', get toolArguments ''desc'')])))
          (\<lambda>newCard. pure (Fallthrough (JSON_stringify newCard)))
      else bind (lift (template toolName))
             (\<lambda>s. throw (Error (''Unknown tool: '' @ s)))))"

subsection \<open>The dispatch on the method\<close>

text \<open>\<^verbatim>\<open>result = await trelloClient.m(...); break\<close>.\<close>

definition result_of :: "jv comp \<Rightarrow> control comp" where
  "result_of m = bind m (\<lambda>r. pure (Fallthrough r))"

definition dispatch :: "upstream \<Rightarrow> jv \<Rightarrow> jv \<Rightarrow> control comp" where
  "dispatch up method params =
     (if method = Str ''initialize'' then pure (Fallthrough initialize_result)
      else if method = Str ''tools/list'' then pure (Fallthrough tools_list_result)
      else if method = Str ''tools/call'' then tools_call up params
      else if method = Str ''get_cards_by_list_id'' then
        result_of (call up (GetCardsByList (get params ''boardId'') (get params ''listId'')))
      else if method = Str ''get_lists'' then
        bind (await (GetLists (get params ''boardId'')) (getLists up (get params ''boardId'')))
          (\<lambda>lists. pure (Fallthrough (objects lists)))
      else if method = Str ''get_recent_activity'' then
        result_of (call up (GetRecentActivity (get params ''boardId'') (get params ''limit'')))
      else if method = Str ''add_card_to_list'' then
        result_of (call up (AddCard (get params ''boardId'') params))
      else if method = Str ''update_card_details'' then
        result_of (call up (UpdateCard (get params ''boardId'') params))
      else if method = Str ''archive_card'' then
        result_of (call up (ArchiveCard (get params ''boardId'') (get params ''cardId'')))
      else if method = Str ''move_card'' then
        result_of (call up (MoveCard (get params ''boardId'') (get params ''cardId'')
                              (get params ''listId'')))
      else if method = Str ''add_list_to_board'' then
        result_of (call up (AddList (get params ''boardId'') (get params ''name'')))
      else if method = Str ''archive_list'' then
        result_of (call up (ArchiveList (get params ''boardId'') (get params ''listId'')))
      else if method = Str ''get_my_cards'' then
        result_of (call up GetMyCards)
      else if method = Str ''attach_image_to_card'' then
        result_of (call up (AttachImageToCard (get params ''boardId'') (get params ''cardId'')
                              (get params ''imageUrl'') (get params ''name'')))
      else if method = Str ''attach_file_to_card'' then
        result_of (call up (AttachFileToCard (get params ''boardId'') (get params ''cardId'')
                              (get params ''fileUrl'') (get params ''name'')
                              (get params ''mimeType'')))
      else if method = Str ''list_boards'' then
        bind (await ListBoards (listBoards up))
          (\<lambda>boards. pure (Fallthrough (objects boards)))
      else if method = Str ''set_active_board'' then
        result_of (call up (SetActiveBoard (get params ''boardId'')))
      else if method = Str ''list_workspaces'' then
        result_of (call up ListWorkspaces)
      else if method = Str ''create_board'' then
        result_of (call up (CreateBoard params))
      else if method = Str ''set_active_workspace'' then
        result_of (call up (SetActiveWorkspace (get params ''workspaceId'')))
      else if method = Str ''list_boards_in_workspace'' then
        result_of (call up (ListBoardsInWorkspace (get params ''workspaceId'')))
      else if method = Str ''get_active_board_info'' then
        (let boardId = activeBoardId up in
         if \<not> truthy boardId
         then pure (Return \<lparr>status = 400, body = Obj [(''error'', Str ''No active board set'')]\<rparr>)
         else bind (await (GetBoardById boardId) (getBoardById up boardId))
                (\<lambda>board. pure (Fallthrough (Obj board))))
      else if method = Str ''get_card'' then
        result_of (call up (GetCard (get params ''cardId'') (get params ''includeMarkdown'')))
      else if method = Str ''add_comment'' then
        result_of (call up (AddCommentToCard (get params ''cardId'') (get params ''text'')))
      else if method = Str ''update_comment'' then
        result_of (call up (UpdateCommentOnCard (get params ''commentId'') (get params ''text'')))
      else if method = Str ''get_checklist_items'' then
        result_of (call up (GetChecklistItems (get params ''name'') (get params ''boardId'')))
      else if method = Str ''add_checklist_item'' then
        result_of (call up (AddChecklistItem (get params ''text'') (get params ''checkListName'')
                              (get params ''boardId'')))
      else if method = Str ''find_checklist_items_by_description'' then
        result_of (call up (FindChecklistItemsByDescription (get params ''description'')
                              (get params ''boardId'')))
      else if method = Str ''get_acceptance_criteria'' then
        result_of (call up (GetAcceptanceCriteria (get params ''boardId'')))
      else if method = Str ''get_checklist_by_name'' then
        result_of (call up (GetChecklistByName (get params ''name'') (get params ''boardId'')))
      else if method = Str ''notifications/initialized'' then
        pure (Return \<lparr>status = 200, body = Obj []\<rparr>)
      else bind (lift (template method))
             (\<lambda>s. pure (Return \<lparr>status = 400,
                                     body = Obj [(''error'', Str (''Unknown method: '' @ s))]\<rparr>)))"

subsection \<open>The body of the \<^verbatim>\<open>try\<close> block\<close>

text \<open>
  \<^verbatim>\<open>req.body\<close> is the object \<^verbatim>\<open>express.json()\<close> parsed (the empty object when
  there was none). The correlation id is read only from a body with a truthy
  \<^verbatim>\<open>jsonrpc\<close> field. The block starts by logging
  \<^verbatim>\<open>`MCP Request: ${req.body.method || 'unknown'}`\<close>: nothing of the log is kept but
  the conversion of the method to a string, which may throw.
\<close>

definition is_rpc :: "obj \<Rightarrow> bool" where
  "is_rpc reqBody = truthy (field reqBody ''jsonrpc'')"

definition request_id :: "obj \<Rightarrow> jv" where
  "request_id reqBody = (if is_rpc reqBody then field reqBody ''id'' else Undefined)"

definition handler :: "upstream \<Rightarrow> obj \<Rightarrow> control comp" where
  "handler up reqBody =
     bind (lift (template (or_else (field reqBody ''method'') (Str ''unknown'')))) (\<lambda>logged.
     (let method = field reqBody ''method'';
          params = or_else (field reqBody ''params'') (Obj []);
          id = request_id reqBody
      in
      if \<not> truthy method
      then pure (Return \<lparr>status = 400,
                         body = Obj [(''error'', Str ''Method is required''),
                                     (''jsonrpc'', Str ''2.0''),
                                     (''id'', or_else id Null)]\<rparr>)
      else dispatch up method params))"

subsection \<open>Responses, the \<^verbatim>\<open>catch\<close> block and the request timer\<close>

definition request_timeout_ms :: nat where
  "request_timeout_ms = 3000"

definition timeout_response :: "obj \<Rightarrow> http_response" where
  "timeout_response reqBody =
     \<lparr>status = 500,
      body = Obj [(''jsonrpc'', Str ''2.0''),
                  (''error'', Obj [(''code'', Num (- 32603)),
                                  (''message'', Str ''Request timeout'')]),
                  (''id'', or_else (field reqBody ''id'') Null)]\<rparr>"

definition success_response :: "obj \<Rightarrow> jv \<Rightarrow> http_response" where
  "success_response reqBody result =
     \<lparr>status = 200,
      body = (if is_rpc reqBody
              then Obj [(''jsonrpc'', Str ''2.0''),
                        (''result'', result),
                        (''id'', request_id reqBody)]
              else Obj [(''result'', result)])\<rparr>"

definition error_message :: "exn \<Rightarrow> string" where
  "error_message error =
     (if instanceof_Error error then message_of error else ''Unknown error occurred'')"

definition error_response :: "obj \<Rightarrow> exn \<Rightarrow> http_response" where
  "error_response reqBody error =
     \<lparr>status = 500,
      body = (if is_rpc reqBody
              then Obj [(''jsonrpc'', Str ''2.0''),
                        (''error'', Obj [(''code'', Num (- 32603)),
                                        (''message'', Str (error_message error))]),
                        (''id'', or_else (field reqBody ''id'') Null)]
              else Obj [(''error'', Str (error_message error))])\<rparr>"

text \<open>
  The \<^verbatim>\<open>catch\<close> block sends the error response without testing
  \<^verbatim>\<open>res.headersSent\<close>; what \<^verbatim>\<open>res.json\<close> throws there escapes the handler.
\<close>

definition catch_block :: "obj \<Rightarrow> exn \<Rightarrow> res \<Rightarrow> res" where
  "catch_block reqBody error rs =
     (case res_json (error_response reqBody error) rs of
        Inr rs' \<Rightarrow> rs'
      | Inl e \<Rightarrow> rs\<lparr>escaped := escaped rs @ [e]\<rparr>)"

text \<open>
  What the handler does with the response object when the \<^verbatim>\<open>switch\<close> is left:
  an exception goes to the \<^verbatim>\<open>catch\<close> block, a \<^verbatim>\<open>return res.status(s).json(b)\<close>
  sends at once, and a result is sent when no headers were sent before.
\<close>

fun complete :: "obj \<Rightarrow> exn + control \<Rightarrow> res \<Rightarrow> res" where
  "complete reqBody (Inl error) rs = catch_block reqBody error rs"
| "complete reqBody (Inr (Return r)) rs =
     (case res_json r rs of Inr rs' \<Rightarrow> rs' | Inl e \<Rightarrow> catch_block reqBody e rs)"
| "complete reqBody (Inr (Fallthrough result)) rs =
     (if \<not> headersSent rs
      then (case res_json (success_response reqBody result) rs of
              Inr rs' \<Rightarrow> rs'
            | Inl e \<Rightarrow> catch_block reqBody e rs)
      else rs)"

text \<open>
  \<^verbatim>\<open>clearTimeout(timeout)\<close> is reached on the success path and in the
  \<^verbatim>\<open>catch\<close> block, not by a \<^verbatim>\<open>return\<close> inside the \<^verbatim>\<open>switch\<close>.
\<close>

fun clears_timeout :: "exn + control \<Rightarrow> bool" where
  "clears_timeout (Inr (Return r)) = False"
| "clears_timeout r = True"

text \<open>The callback of the request timer.\<close>

definition on_timeout :: "obj \<Rightarrow> res \<Rightarrow> res" where
  "on_timeout reqBody rs =
     (if \<not> headersSent rs
      then (case res_json (timeout_response reqBody) rs of
              Inr rs' \<Rightarrow> rs'
            | Inl e \<Rightarrow> rs\<lparr>escaped := escaped rs @ [e]\<rparr>)
      else rs)"

text \<open>
  One request: the timer is set, the handler runs, and whichever of the two comes first
  acts on the response first. A timer wins over a continuation due at the same
  millisecond.
\<close>

record outcome =
  client_calls :: "upcall list"
  responses :: "http_response list"
  unhandled :: "exn list"

definition post_mcp :: "upstream \<Rightarrow> obj \<Rightarrow> outcome" where
  "post_mcp up reqBody =
     (let run = handler up reqBody;
          rs0 = \<lparr>sent = [], escaped = []\<rparr>;
          rs = (case snd run of
                  Never \<Rightarrow> on_timeout reqBody rs0
                | At t r \<Rightarrow>
                    if t < request_timeout_ms
                    then (let rs1 = complete reqBody r rs0
                          in if clears_timeout r then rs1 else on_timeout reqBody rs1)
                    else complete reqBody r (on_timeout reqBody rs0))
      in \<lparr>client_calls = fst run, responses = sent rs, unhandled = escaped rs\<rparr>)"

section \<open>Notions used to state the properties\<close>

text \<open>
  The method names of the \<^verbatim>\<open>switch\<close>, and the tool names of \<^verbatim>\<open>tools/call\<close>
  (the list \<^verbatim>\<open>GET /tools\<close> returns).
\<close>

definition known_methods :: "string list" where
  "known_methods =
     [''initialize'', ''tools/list'', ''tools/call'', ''get_cards_by_list_id'', ''get_lists'',
      ''get_recent_activity'', ''add_card_to_list'', ''update_card_details'', ''archive_card'',
      ''move_card'', ''add_list_to_board'', ''archive_list'', ''get_my_cards'',
      ''attach_image_to_card'', ''attach_file_to_card'', ''list_boards'', ''set_active_board'',
      ''list_workspaces'', ''create_board'', ''set_active_workspace'',
      ''list_boards_in_workspace'', ''get_active_board_info'', ''get_card'', ''add_comment'',
      ''update_comment'', ''get_checklist_items'', ''add_checklist_item'',
      ''find_checklist_items_by_description'', ''get_acceptance_criteria'',
      ''get_checklist_by_name'', ''notifications/initialized'']"

definition tool_names :: "string list" where
  "tool_names =
     [''search'', ''fetch'', ''list_boards'', ''get_cards_by_list_id'', ''get_lists'',
      ''create_card'']"

text \<open>
  The request is a \<^verbatim>\<open>tools/call\<close> whose \<^verbatim>\<open>params.name\<close> is \<open>toolName\<close> and
  whose tool arguments (\<^verbatim>\<open>params.arguments || {}\<close>) are \<open>toolArguments\<close>.
\<close>

definition is_tool_call :: "obj \<Rightarrow> jv \<Rightarrow> jv \<Rightarrow> bool" where
  "is_tool_call reqBody toolName toolArguments =
     (field reqBody ''method'' = Str ''tools/call'' \<and>
      get (or_else (field reqBody ''params'') (Obj [])) ''name'' = toolName \<and>
      or_else (get (or_else (field reqBody ''params'') (Obj [])) ''arguments'') (Obj [])
        = toolArguments)"

text \<open>
  The words of the specification for \<^verbatim>\<open>search\<close>. The text contains the query as
  a case-insensitive substring when, both taken to lower case by the case mapping
  \<open>lc\<close>, the query occurs in the text; a board matches when its name or its
  description does.
\<close>

definition ci_substring :: "(string \<Rightarrow> string) \<Rightarrow> string \<Rightarrow> string \<Rightarrow> bool" where
  "ci_substring lc q text = (\<exists>pre post. lc text = pre @ lc q @ post)"

definition name_or_desc_contains :: "(string \<Rightarrow> string) \<Rightarrow> string \<Rightarrow> obj \<Rightarrow> bool" where
  "name_or_desc_contains lc q board =
     (\<exists>s. (field board ''name'' = Str s \<or> field board ''desc'' = Str s) \<and> ci_substring lc q s)"

text \<open>
  On ASCII text the same is said letter by letter, without a case mapping: two
  characters are the same letter when they are equal or one is a capital \<^verbatim>\<open>A\<close> to
  \<^verbatim>\<open>Z\<close> and the other the small letter 32 places after it; the text contains the
  query up to case when a part of the text has the letters of the query.
\<close>

definition ascii :: "string \<Rightarrow> bool" where
  "ascii s = list_all (\<lambda>c. (of_char c :: nat) < 128) s"

definition capital :: "char \<Rightarrow> bool" where
  "capital c = (65 \<le> (of_char c :: nat) \<and> (of_char c :: nat) \<le> 90)"




text \<open>
  What every JavaScript runtime does on ASCII text: the capitals \<^verbatim>\<open>A\<close> to
  \<^verbatim>\<open>Z\<close> are lowered and every other character is kept.
\<close>

definition ascii_lower :: "char \<Rightarrow> char" where
  "ascii_lower c = (if capital c then char_of ((of_char c :: nat) + 32) else c)"






text \<open>The promise is still unsettled \<open>ms\<close> milliseconds after the call.\<close>

fun unsettled_at :: "nat \<Rightarrow> 'a step \<Rightarrow> bool" where
  "unsettled_at ms (At t r) = (ms \<le> t)"
| "unsettled_at ms Never = True"

subsection \<open>A client and requests to evaluate the handler on\<close>

definition sav_board :: obj where
  "sav_board =
     [(''id'', Str ''b1''), (''name'', Str ''SAV Client''), (''desc'', Str []),
      (''url'', Str ''https://trello.com/b/b1''), (''shortUrl'', Str ''https://trello.com/b/s1''),
      (''closed'', Bool False), (''idOrganization'', Null)]"

definition projet_board :: obj where
  "projet_board =
     [(''id'', Str ''b2''), (''name'', Str ''Projet X''), (''desc'', Str ''Suivi''),
      (''url'', Str ''https://trello.com/b/b2''), (''shortUrl'', Str ''https://trello.com/b/s2''),
      (''closed'', Bool True), (''idOrganization'', Null)]"


definition todo_list :: obj where
  "todo_list =
     [(''id'', Str ''l1''), (''name'', Str ''To Do''), (''closed'', Bool False),
      (''idBoard'', Str ''b2'')]"

text \<open>
  The listing answers after 10 ms; only \<open>b1\<close> is found as a board; the lists of
  \<open>b2\<close> arrive after 7 ms, those of \<open>b3\<close> fail after 4 s, any other board has none;
  the pass-through methods answer an empty array after 3 ms. All its texts are ASCII, and
  its \<^verbatim>\<open>toLowerCase\<close> lowers the ASCII capitals.
\<close>

definition sample_client :: upstream where
  "sample_client =
     \<lparr>activeBoardId = Str ''b1'',
      listBoards = At 10 (Inr [sav_board, projet_board]),
      getBoardById = (\<lambda>i. if i = Str ''b1'' then At 5 (Inr sav_board)
                            else At 5 (Inl (Error ''board not found''))),
      getLists = (\<lambda>i. if i = Str ''b2'' then At 7 (Inr [todo_list])
                        else if i = Str ''b3'' then At 4000 (Inl (Error ''socket hang up''))
                        else At 7 (Inr [])),
      other = (\<lambda>c. At 3 (Inr (Arr []))),
      toLowerCase = map ascii_lower\<rparr>"

definition tool_request :: "jv \<Rightarrow> string \<Rightarrow> obj \<Rightarrow> obj" where
  "tool_request ident toolName toolArguments =
     [(''jsonrpc'', Str ''2.0''),
      (''method'', Str ''tools/call''),
      (''params'', Obj [(''name'', Str toolName), (''arguments'', Obj toolArguments)]),
      (''id'', ident)]"

definition simple_request :: "string \<Rightarrow> obj \<Rightarrow> obj" where
  "simple_request method params = [(''method'', Str method), (''params'', Obj params)]"

section \<open>Auxiliary facts\<close>

lemma bind_simps:
  "bind (cs, Never) f = (cs, Never)"
  "bind (cs, At t (Inl e)) f = (cs, At t (Inl e))"
  "bind (cs, At t (Inr v)) f = (cs @ fst (f v), delay t (snd (f v)))"
  by (simp_all add: bind_def split: prod.splits)

lemma try_catch_simps:
  "try_catch (cs, Never) h = (cs, Never)"
  "try_catch (cs, At t (Inr v)) h = (cs, At t (Inr v))"
  "try_catch (cs, At t (Inl e)) h = (cs @ fst (h e), delay t (snd (h e)))"
  by (simp_all add: try_catch_def split: prod.splits)

lemma delay_0 [simp]: "delay 0 r = r"
  by (cases r) simp_all

lemma bind_lift:
  "bind (lift (Inr v)) f = f v"
  "bind (lift (Inl e)) f = ([], At 0 (Inl e))"
  by (simp_all add: lift_def bind_simps)

lemma template_simps:
  "template (Str s) = Inr s"
  "template Undefined = Inr ''undefined''"
  "convertible v \<Longrightarrow> template v = Inr (js_string v)"
  by (simp_all add: template_def)

lemma handler_dispatch:
  "truthy (field reqBody ''method'') \<Longrightarrow> convertible (field reqBody ''method'') \<Longrightarrow>
   handler up reqBody =
     dispatch up (field reqBody ''method'') (or_else (field reqBody ''params'') (Obj []))"
  by (simp add: handler_def or_else_def template_simps bind_lift)

lemma handler_tool_call:
  "is_tool_call reqBody toolName toolArguments \<Longrightarrow>
   handler up reqBody = tools_call up (or_else (field reqBody ''params'') (Obj []))"
  by (simp add: handler_def is_tool_call_def dispatch_def template_simps bind_lift
      or_else_def [of "Str ''tools/call''"])

lemma post_mcp_threw:
  assumes "handler up reqBody = (cs, At t (Inl e))" and "t < request_timeout_ms"
  shows "post_mcp up reqBody =
    \<lparr>client_calls = cs, responses = [error_response reqBody e], unhandled = []\<rparr>"
  using assms by (simp add: post_mcp_def catch_block_def res_json_def headersSent_def)

lemma post_mcp_result:
  assumes "handler up reqBody = (cs, At t (Inr (Fallthrough x)))" and "t < request_timeout_ms"
  shows "post_mcp up reqBody =
    \<lparr>client_calls = cs, responses = [success_response reqBody x], unhandled = []\<rparr>"
  using assms by (simp add: post_mcp_def res_json_def headersSent_def)

lemma post_mcp_return:
  assumes "handler up reqBody = (cs, At t (Inr (Return r)))" and "t < request_timeout_ms"
  shows "post_mcp up reqBody = \<lparr>client_calls = cs, responses = [r], unhandled = []\<rparr>"
  using assms by (simp add: post_mcp_def res_json_def headersSent_def on_timeout_def)

lemma on_timeout_fresh:
  "on_timeout reqBody \<lparr>sent = [], escaped = []\<rparr> =
     \<lparr>sent = [timeout_response reqBody], escaped = []\<rparr>"
  by (simp add: on_timeout_def res_json_def headersSent_def)

lemma complete_after_sent:
  "headersSent rs \<Longrightarrow> sent (complete reqBody r rs) = sent rs"
proof (cases r)
  case (Inl e)
  assume "headersSent rs"
  with Inl show ?thesis by (simp add: catch_block_def res_json_def)
next
  case (Inr c)
  assume "headersSent rs"
  with Inr show ?thesis by (cases c) (simp_all add: catch_block_def res_json_def)
qed

lemma post_mcp_late:
  assumes "unsettled_at request_timeout_ms (snd (handler up reqBody))"
  shows "responses (post_mcp up reqBody) = [timeout_response reqBody]"
proof (cases "snd (handler up reqBody)")
  case Never
  then show ?thesis by (simp add: post_mcp_def on_timeout_fresh)
next
  case (At t r)
  with assms have "\<not> t < request_timeout_ms" by simp
  with At show ?thesis
    by (simp add: post_mcp_def on_timeout_fresh complete_after_sent headersSent_def)
qed

lemma post_mcp_early_length:
  assumes "snd (handler up reqBody) = At t r" and "t < request_timeout_ms"
  shows "length (responses (post_mcp up reqBody)) = 1"
proof (cases r)
  case (Inl e)
  with assms show ?thesis
    using post_mcp_threw [of up reqBody "fst (handler up reqBody)" t e]
    by (simp add: prod_eq_iff)
next
  case (Inr c)
  show ?thesis
  proof (cases c)
    case (Fallthrough x)
    with Inr assms show ?thesis
      using post_mcp_result [of up reqBody "fst (handler up reqBody)" t x]
      by (simp add: prod_eq_iff)
  next
    case (Return x)
    with Inr assms show ?thesis
      using post_mcp_return [of up reqBody "fst (handler up reqBody)" t x]
      by (simp add: prod_eq_iff)
  qed
qed

lemma dispatch_unknown:
  assumes "method \<notin> Str ` set known_methods" and "convertible method"
  shows "dispatch up method params =
    pure (Return \<lparr>status = 400,
                  body = Obj [(''error'', Str (''Unknown method: '' @ js_string method))]\<rparr>)"
  using assms by (simp add: dispatch_def known_methods_def template_simps bind_lift)

lemma tools_call_unknown:
  assumes "get params ''name'' \<notin> Str ` set tool_names" and "convertible (get params ''name'')"
  shows "tools_call up params =
    throw (Error (''Unknown tool: '' @ js_string (get params ''name'')))"
  using assms by (simp add: tools_call_def tool_names_def Let_def template_simps bind_lift)

text \<open>A tool name that does not convert to a string makes the log line throw.\<close>

lemma tools_call_unconvertible:
  assumes "\<not> convertible (get params ''name'')"
  shows "tools_call up params =
    throw (TypeError ''Cannot convert object to primitive value'')"
  using assms by (simp add: tools_call_def Let_def template_def bind_lift throw_def)

lemma bind_pure:
  "bind (cs, p) (\<lambda>v. pure (g v)) =
     (cs, case p of Never \<Rightarrow> Never
          | At t (Inl e) \<Rightarrow> At t (Inl e)
          | At t (Inr v) \<Rightarrow> At t (Inr (g v)))"
  by (simp add: bind_def pure_def split: step.splits sum.splits)

lemma client_calls_post_mcp: "client_calls (post_mcp up reqBody) = fst (handler up reqBody)"
  by (simp add: post_mcp_def Let_def)

lemma tools_call_list_boards:
  "get params ''name'' = Str ''list_boards'' \<Longrightarrow> tools_call up params = list_boards_tool up"
  by (simp add: tools_call_def template_simps bind_lift)

lemma list_boards_tool_slow:
  assumes "unsettled_at trello_timeout_ms (listBoards up)"
  shows "list_boards_tool up =
    ([ListBoards], At trello_timeout_ms
       (Inr (Fallthrough (JSON_stringify (boards_failure (Error ''Trello API timeout''))))))"
proof (cases "listBoards up")
  case Never
  then show ?thesis
    by (simp add: list_boards_tool_def await_def race_timeout_def bind_simps try_catch_simps pure_def)
next
  case (At t r)
  with assms have "\<not> t < trello_timeout_ms" by simp
  with At show ?thesis
    by (simp add: list_boards_tool_def await_def race_timeout_def bind_simps try_catch_simps pure_def)
qed

lemma boards_failure_text:
  \<open>JSON_stringify (boards_failure (Error ''Trello API timeout'')) =
     Str ''{"error":"Failed to fetch boards","message":"Trello API timeout","boards":[]}''\<close>
  by code_simp

text \<open>The definitions that evaluate the handler on a request that is given.\<close>

lemmas run_defs =
  handler_def dispatch_def tools_call_def field_def or_else_def request_id_def is_rpc_def
  throw_def pure_def lift_def await_def template_def bind_simps try_catch_simps Let_def

lemmas respond_defs =
  post_mcp_def request_timeout_ms_def catch_block_def res_json_def headersSent_def
  on_timeout_def error_response_def error_message_def success_response_def

section \<open>Correlation id of the response (C1)\<close>

text \<open>
  On the success path the response carries \<^verbatim>\<open>id: id\<close>, the id of the request as it
  was received, whatever its value.
\<close>

lemma success_response_echoes_id:
  "is_rpc reqBody \<Longrightarrow> get (body (success_response reqBody result)) ''id'' = field reqBody ''id''"
  by (simp add: success_response_def request_id_def)

text \<open>
  C1: the id of the response equals the id of the request as received, also when the id
  is null, 0 or the empty string, in a success result, an error envelope and the timeout
  error. The error envelope and the timeout error are built with
  \<^verbatim>\<open>id: req.body.id || null\<close>: for the request
  \<^verbatim>\<open>{"jsonrpc":"2.0","method":"tools/call","params":{"name":"nope","arguments":{}},"id":0}\<close>
  the handler answers the error envelope of the unknown tool with the id \<^verbatim>\<open>null\<close>,
  not 0.
\<close>

theorem error_envelope_loses_zero_id:
  "responses (post_mcp up (tool_request (Num 0) ''nope'' [])) =
     [\<lparr>status = 500,
       body = Obj [(''jsonrpc'', Str ''2.0''),
                   (''error'', Obj [(''code'', Num (- 32603)),
                                   (''message'', Str ''Unknown tool: nope'')]),
                   (''id'', Null)]\<rparr>]
   \<and> field (tool_request (Num 0) ''nope'' []) ''id'' = Num 0"
  by (simp add: run_defs respond_defs tool_request_def)

section \<open>Resolution of \<^verbatim>\<open>fetch\<close> (C2)\<close>

lemma tools_call_fetch:
  "get params ''name'' = Str ''fetch'' \<Longrightarrow>
   tools_call up params = fetch_tool up (or_else (get params ''arguments'') (Obj []))"
  by (simp add: tools_call_def template_simps bind_lift)

lemma handler_fetch:
  assumes "is_tool_call reqBody (Str ''fetch'') toolArguments"
  shows "handler up reqBody = fetch_tool up toolArguments"
  using assms handler_tool_call [OF assms, of up] tools_call_fetch
  by (simp add: is_tool_call_def)

lemma board_text_convertible:
  "convertible (field board ''name'') \<Longrightarrow>
   board_text board =
     Inr (or_else (field board ''desc'')
            (Str (''Tableau Trello: '' @ js_string (field board ''name''))))"
  by (simp add: board_text_def or_else_def template_simps)

lemma not_found_convertible:
  "convertible ident \<Longrightarrow>
   not_found ident = ([], At 0 (Inl (Error (''No resource found with ID '' @ js_string ident))))"
  by (simp add: not_found_def template_simps bind_lift throw_def)

lemma fetch_tool_board:
  assumes "getBoardById up (get toolArguments ''id'') = At t (Inr board)"
    and "convertible (field board ''name'')"
  shows "fetch_tool up toolArguments =
    ([GetBoardById (get toolArguments ''id'')],
     At t (Inr (Fallthrough (Str (ser (board_envelope board
       (or_else (field board ''desc'')
          (Str (''Tableau Trello: '' @ js_string (field board ''name''))))))))))"
  using assms
  by (simp add: fetch_tool_def Let_def await_def bind_simps try_catch_simps pure_def
      JSON_stringify_def board_envelope_def board_text_convertible bind_lift)

lemma fetch_tool_list:
  assumes "getBoardById up (get toolArguments ''id'') = At t (Inl e)"
    and "getLists up (get toolArguments ''id'') = At u (Inr (list # rest))"
    and "convertible (field list ''name'')"
    and "convertible (get toolArguments ''id'')"
  shows "fetch_tool up toolArguments =
    ([GetBoardById (get toolArguments ''id''), GetLists (get toolArguments ''id'')],
     At (t + u) (Inr (Fallthrough (Str (ser (list_envelope list
       (js_string (field list ''name'')) (js_string (get toolArguments ''id''))))))))"
  using assms
  by (simp add: fetch_tool_def Let_def await_def bind_simps try_catch_simps pure_def
      JSON_stringify_def list_envelope_def template_simps bind_lift)

lemma fetch_tool_none:
  assumes "getBoardById up (get toolArguments ''id'') = At t (Inl e)"
    and "getLists up (get toolArguments ''id'') = At u (Inl e2)
         \<or> getLists up (get toolArguments ''id'') = At u (Inr [])"
    and "convertible (get toolArguments ''id'')"
  shows "fetch_tool up toolArguments =
    ([GetBoardById (get toolArguments ''id''), GetLists (get toolArguments ''id'')],
     At (t + u) (Inl (Error (''No resource found with ID '' @ js_string (get toolArguments ''id'')))))"
  using assms
  by (auto simp add: fetch_tool_def Let_def await_def bind_simps try_catch_simps
      not_found_convertible)

text \<open>
  C2: the \<^verbatim>\<open>fetch\<close> tool first asks for the board of the given id. When the board
  is found, the result is the JSON text of an envelope whose \<^verbatim>\<open>metadata.type\<close> is
  \<^verbatim>\<open>board\<close>. When that fails, the lists of the board of that id are asked for, and
  when they arrive and are not empty the result is the envelope of the first list, with
  \<^verbatim>\<open>metadata.type\<close> equal to \<^verbatim>\<open>list\<close>. When the lists fail too, or are empty,
  the tool fails with the error \<^verbatim>\<open>No resource found with ID <id>\<close>. The id and the
  names of the board and the list are values that convert to a string, as every string
  does.
\<close>

theorem fetch_resolution:
  assumes "is_tool_call reqBody (Str ''fetch'') toolArguments"
    and "ident = get toolArguments ''id''"
    and "convertible ident"
  shows
   "(getBoardById up ident = At t (Inr board) \<and> convertible (field board ''name'') \<longrightarrow>
       handler up reqBody =
         ([GetBoardById ident],
          At t (Inr (Fallthrough (Str (ser (board_envelope board
            (or_else (field board ''desc'')
               (Str (''Tableau Trello: '' @ js_string (field board ''name''))))))))))
       \<and> get (get (board_envelope board
            (or_else (field board ''desc'')
               (Str (''Tableau Trello: '' @ js_string (field board ''name'')))))
            ''metadata'') ''type'' = Str ''board'')
    \<and> (getBoardById up ident = At t (Inl e) \<and> getLists up ident = At u (Inr (list # rest))
        \<and> convertible (field list ''name'') \<longrightarrow>
       handler up reqBody =
         ([GetBoardById ident, GetLists ident],
          At (t + u) (Inr (Fallthrough (Str (ser (list_envelope list
            (js_string (field list ''name'')) (js_string ident)))))))
       \<and> get (get (list_envelope list (js_string (field list ''name'')) (js_string ident))
            ''metadata'') ''type'' = Str ''list'')
    \<and> (getBoardById up ident = At t (Inl e)
        \<and> (getLists up ident = At u (Inl e2) \<or> getLists up ident = At u (Inr [])) \<longrightarrow>
       handler up reqBody =
         ([GetBoardById ident, GetLists ident],
          At (t + u) (Inl (Error (''No resource found with ID '' @ js_string ident)))))"
proof (intro conjI impI)
  assume "getBoardById up ident = At t (Inr board) \<and> convertible (field board ''name'')"
  then show "handler up reqBody =
      ([GetBoardById ident],
       At t (Inr (Fallthrough (Str (ser (board_envelope board
         (or_else (field board ''desc'')
            (Str (''Tableau Trello: '' @ js_string (field board ''name''))))))))))"
    using handler_fetch [OF assms(1), of up] assms(2) by (simp add: fetch_tool_board)
next
  assume "getBoardById up ident = At t (Inl e) \<and> getLists up ident = At u (Inr (list # rest))
        \<and> convertible (field list ''name'')"
  then show "handler up reqBody =
      ([GetBoardById ident, GetLists ident],
       At (t + u) (Inr (Fallthrough (Str (ser (list_envelope list
         (js_string (field list ''name'')) (js_string ident)))))))"
    using handler_fetch [OF assms(1), of up] assms(2,3) by (simp add: fetch_tool_list)
next
  assume "getBoardById up ident = At t (Inl e)
        \<and> (getLists up ident = At u (Inl e2) \<or> getLists up ident = At u (Inr []))"
  then have "fetch_tool up toolArguments =
         ([GetBoardById ident, GetLists ident],
          At (t + u) (Inl (Error (''No resource found with ID '' @ js_string ident))))"
    using fetch_tool_none [of up toolArguments t e u e2] assms(2,3) by simp
  then show "handler up reqBody =
         ([GetBoardById ident, GetLists ident],
          At (t + u) (Inl (Error (''No resource found with ID '' @ js_string ident))))"
    using handler_fetch [OF assms(1), of up] by simp
qed (simp_all add: board_envelope_def list_envelope_def)

text \<open>The texts of the two envelopes of the sample client.\<close>

lemma sav_text:
  \<open>ser (board_envelope sav_board (Str ''Tableau Trello: SAV Client'')) =
    ''{"id":"b1","title":"SAV Client","text":"Tableau Trello: SAV Client","url":"https://trello.com/b/b1","metadata":{"type":"board","closed":false,"organization":null}}''\<close>
  by code_simp

lemma todo_text:
  \<open>ser (list_envelope todo_list ''To Do'' ''b2'') =
    ''{"id":"l1","title":"To Do","text":"Liste Trello: To Do","url":"https://trello.com/b/b2","metadata":{"type":"list","closed":false,"boardId":"b2"}}''\<close>
  by code_simp

text \<open>
  On the sample client \<open>b1\<close> is a board, \<open>b2\<close> is found through its lists and
  \<open>zz\<close> is not found.
\<close>

theorem fetch_resolution_witness:
  \<open>is_tool_call (tool_request (Num 1) ''fetch'' [(''id'', Str ''b1'')]) (Str ''fetch'')
      (Obj [(''id'', Str ''b1'')])
   \<and> convertible (Str ''b1'')
   \<and> getBoardById sample_client (Str ''b1'') = At 5 (Inr sav_board)
   \<and> convertible (field sav_board ''name'')
   \<and> handler sample_client (tool_request (Num 1) ''fetch'' [(''id'', Str ''b1'')]) =
       ([GetBoardById (Str ''b1'')],
        At 5 (Inr (Fallthrough (Str ''{"id":"b1","title":"SAV Client","text":"Tableau Trello: SAV Client","url":"https://trello.com/b/b1","metadata":{"type":"board","closed":false,"organization":null}}''))))
   \<and> is_tool_call (tool_request (Num 2) ''fetch'' [(''id'', Str ''b2'')]) (Str ''fetch'')
      (Obj [(''id'', Str ''b2'')])
   \<and> convertible (Str ''b2'')
   \<and> getBoardById sample_client (Str ''b2'') = At 5 (Inl (Error ''board not found''))
   \<and> getLists sample_client (Str ''b2'') = At 7 (Inr [todo_list])
   \<and> convertible (field todo_list ''name'')
   \<and> handler sample_client (tool_request (Num 2) ''fetch'' [(''id'', Str ''b2'')]) =
       ([GetBoardById (Str ''b2''), GetLists (Str ''b2'')],
        At 12 (Inr (Fallthrough (Str ''{"id":"l1","title":"To Do","text":"Liste Trello: To Do","url":"https://trello.com/b/b2","metadata":{"type":"list","closed":false,"boardId":"b2"}}''))))
   \<and> is_tool_call (tool_request (Num 3) ''fetch'' [(''id'', Str ''zz'')]) (Str ''fetch'')
      (Obj [(''id'', Str ''zz'')])
   \<and> convertible (Str ''zz'')
   \<and> getBoardById sample_client (Str ''zz'') = At 5 (Inl (Error ''board not found''))
   \<and> getLists sample_client (Str ''zz'') = At 7 (Inr [])
   \<and> handler sample_client (tool_request (Num 3) ''fetch'' [(''id'', Str ''zz'')]) =
       ([GetBoardById (Str ''zz''), GetLists (Str ''zz'')],
        At 12 (Inl (Error ''No resource found with ID zz'')))\<close>
proof -
  have c1: "is_tool_call (tool_request (Num 1) ''fetch'' [(''id'', Str ''b1'')]) (Str ''fetch'')
      (Obj [(''id'', Str ''b1'')])"
    by (simp add: is_tool_call_def tool_request_def field_def or_else_def)
  have c2: "is_tool_call (tool_request (Num 2) ''fetch'' [(''id'', Str ''b2'')]) (Str ''fetch'')
      (Obj [(''id'', Str ''b2'')])"
    by (simp add: is_tool_call_def tool_request_def field_def or_else_def)
  have c3: "is_tool_call (tool_request (Num 3) ''fetch'' [(''id'', Str ''zz'')]) (Str ''fetch'')
      (Obj [(''id'', Str ''zz'')])"
    by (simp add: is_tool_call_def tool_request_def field_def or_else_def)
  have b1: "getBoardById sample_client (Str ''b1'') = At 5 (Inr sav_board)"
    by (simp add: sample_client_def)
  have b2: "getBoardById sample_client (Str ''b2'') = At 5 (Inl (Error ''board not found''))"
    by (simp add: sample_client_def)
  have l2: "getLists sample_client (Str ''b2'') = At 7 (Inr [todo_list])"
    by (simp add: sample_client_def)
  have b3: "getBoardById sample_client (Str ''zz'') = At 5 (Inl (Error ''board not found''))"
    by (simp add: sample_client_def)
  have l3: "getLists sample_client (Str ''zz'') = At 7 (Inr [])"
    by (simp add: sample_client_def)
  have i1: "Str ''b1'' = get (Obj [(''id'', Str ''b1'')]) ''id''" by simp
  have i2: "Str ''b2'' = get (Obj [(''id'', Str ''b2'')]) ''id''" by simp
  have i3: "Str ''zz'' = get (Obj [(''id'', Str ''zz'')]) ''id''" by simp
  have v: "convertible (Str ''b1'')" "convertible (Str ''b2'')" "convertible (Str ''zz'')"
    by simp_all
  have n: "field sav_board ''name'' = Str ''SAV Client''" "field sav_board ''desc'' = Str []"
    "field todo_list ''name'' = Str ''To Do''"
    by (simp_all add: field_def sav_board_def todo_list_def)
  show ?thesis
    using c1 c2 c3 b1 b2 l2 b3 l3 v
      fetch_resolution [OF c1 i1 v(1), of sample_client 5 sav_board]
      fetch_resolution [OF c2 i2 v(2), of sample_client 5 _ "Error ''board not found''" 7
        todo_list "[]"]
      fetch_resolution [OF c3 i3 v(3), of sample_client 5 _ "Error ''board not found''" 7 _ _
        "Error ''board not found''"]
    by (simp add: n or_else_def sav_text todo_text)
qed

section \<open>Results of \<^verbatim>\<open>search\<close> (C3)\<close>





lemma tools_call_search:
  "get params ''name'' = Str ''search'' \<Longrightarrow>
   tools_call up params = search_tool up (or_else (get params ''arguments'') (Obj []))"
  by (simp add: tools_call_def template_simps bind_lift)

lemma handler_search:
  assumes "is_tool_call reqBody (Str ''search'') toolArguments"
  shows "handler up reqBody = search_tool up toolArguments"
  using assms handler_tool_call [OF assms, of up] tools_call_search
  by (simp add: is_tool_call_def)





lemma ascii_append: "ascii (xs @ ys) \<longleftrightarrow> ascii xs \<and> ascii ys"
  by (simp add: ascii_def)




text \<open>
  Beyond ASCII the matching follows the case mapping of the runtime: where it lowers
  \<^verbatim>\<open>E\<close> with an acute accent (the bytes C3 89) to the small letter (C3 A9), the
  query with the small letter finds the board whose name has the capital.
\<close>

lemma accented_capital_is_found:
  assumes "toLowerCase up (CHR 0xC3 # CHR 0x89 # ''cole'') = CHR 0xC3 # CHR 0xA9 # ''cole''"
    and "toLowerCase up (CHR 0xC3 # CHR 0xA9 # ''cole'') = CHR 0xC3 # CHR 0xA9 # ''cole''"
    and "field board ''name'' = Str (CHR 0xC3 # CHR 0x89 # ''cole'')"
  shows "name_or_desc_contains (toLowerCase up) (CHR 0xC3 # CHR 0xA9 # ''cole'') board"
proof -
  have "ci_substring (toLowerCase up) (CHR 0xC3 # CHR 0xA9 # ''cole'')
          (CHR 0xC3 # CHR 0x89 # ''cole'')"
    unfolding ci_substring_def assms(1,2) by (intro exI [of _ "[]"]) simp
  with assms(3) show ?thesis
    unfolding name_or_desc_contains_def by blast
qed













section \<open>\<^verbatim>\<open>list_boards\<close> when the listing is slow (C4)\<close>

text \<open>
  C4: when the listing of the boards has not settled within the 2 seconds of the tool's
  own timer, the \<^verbatim>\<open>list_boards\<close> tool raises nothing: the response has status 200
  and its result is the JSON text of an object with an error marker, the message of the
  timer and an empty \<^verbatim>\<open>boards\<close> array.
\<close>

theorem list_boards_timeout_degrades:
  assumes "is_tool_call reqBody (Str ''list_boards'') toolArguments"
    and "unsettled_at trello_timeout_ms (listBoards up)"
  shows \<open>post_mcp up reqBody =
     \<lparr>client_calls = [ListBoards],
      responses =
        [\<lparr>status = 200,
          body = (if is_rpc reqBody
                  then Obj [(''jsonrpc'', Str ''2.0''),
                            (''result'', Str ''{"error":"Failed to fetch boards","message":"Trello API timeout","boards":[]}''),
                            (''id'', field reqBody ''id'')]
                  else Obj [(''result'', Str ''{"error":"Failed to fetch boards","message":"Trello API timeout","boards":[]}'')])\<rparr>],
      unhandled = []\<rparr>\<close>
proof -
  have "handler up reqBody = list_boards_tool up"
    using assms(1) handler_tool_call [OF assms(1)] tools_call_list_boards
    by (simp add: is_tool_call_def)
  then have "handler up reqBody = ([ListBoards], At trello_timeout_ms
       (Inr (Fallthrough (JSON_stringify (boards_failure (Error ''Trello API timeout''))))))"
    using list_boards_tool_slow [OF assms(2)] by simp
  then have "post_mcp up reqBody = \<lparr>client_calls = [ListBoards],
      responses = [success_response reqBody (JSON_stringify (boards_failure (Error ''Trello API timeout'')))],
      unhandled = []\<rparr>"
    by (rule post_mcp_result) (simp add: trello_timeout_ms_def request_timeout_ms_def)
  then show ?thesis
    by (simp add: success_response_def boards_failure_text request_id_def)
qed

text \<open>The listing arrives after 2.5 seconds: the request with id 7 is answered with status 200.\<close>

theorem list_boards_timeout_degrades_witness:
  \<open>is_tool_call (tool_request (Num 7) ''list_boards'' []) (Str ''list_boards'') (Obj [])
   \<and> unsettled_at trello_timeout_ms
        (listBoards (sample_client\<lparr>listBoards := At 2500 (Inr [sav_board])\<rparr>))
   \<and> post_mcp (sample_client\<lparr>listBoards := At 2500 (Inr [sav_board])\<rparr>)
        (tool_request (Num 7) ''list_boards'' []) =
       \<lparr>client_calls = [ListBoards],
        responses =
          [\<lparr>status = 200,
            body = Obj [(''jsonrpc'', Str ''2.0''),
                        (''result'', Str ''{"error":"Failed to fetch boards","message":"Trello API timeout","boards":[]}''),
                        (''id'', Num 7)]\<rparr>],
        unhandled = []\<rparr>\<close>
proof -
  have call: "is_tool_call (tool_request (Num 7) ''list_boards'' []) (Str ''list_boards'') (Obj [])"
    by (simp add: is_tool_call_def tool_request_def field_def or_else_def)
  have slow: "unsettled_at trello_timeout_ms
        (listBoards (sample_client\<lparr>listBoards := At 2500 (Inr [sav_board])\<rparr>))"
    by (simp add: trello_timeout_ms_def)
  show ?thesis
    using call slow list_boards_timeout_degrades [OF call slow]
    by (simp add: is_rpc_def tool_request_def field_def)
qed

section \<open>\<^verbatim>\<open>tools/call\<close> and the legacy methods (C5)\<close>

lemma todo_lists_text:
  \<open>ser (objects [todo_list]) = ''[{"id":"l1","name":"To Do","closed":false,"idBoard":"b2"}]''\<close>
  by code_simp

text \<open>
  C5 says that a tool called through \<^verbatim>\<open>tools/call\<close> gives the same result value as
  the legacy method of the same name. For \<^verbatim>\<open>get_lists\<close> on the board \<open>b2\<close> of the
  sample client the tool gives the JSON text of the lists, a string, and the legacy
  method gives the array of the lists.
\<close>

theorem get_lists_results_differ_counterexample:
  \<open>snd (handler sample_client (tool_request (Num 1) ''get_lists'' [(''boardId'', Str ''b2'')])) =
     At 7 (Inr (Fallthrough
       (Str ''[{"id":"l1","name":"To Do","closed":false,"idBoard":"b2"}]'')))
   \<and> snd (handler sample_client (simple_request ''get_lists'' [(''boardId'', Str ''b2'')])) =
     At 7 (Inr (Fallthrough (Arr [Obj todo_list])))
   \<and> snd (handler sample_client (tool_request (Num 1) ''get_lists'' [(''boardId'', Str ''b2'')]))
     \<noteq> snd (handler sample_client (simple_request ''get_lists'' [(''boardId'', Str ''b2'')]))\<close>
proof -
  have a: "snd (handler sample_client (tool_request (Num 1) ''get_lists'' [(''boardId'', Str ''b2'')])) =
     At 7 (Inr (Fallthrough (Str (ser (objects [todo_list])))))"
    by (simp add: run_defs tool_request_def sample_client_def JSON_stringify_def objects_def)
  have b: "snd (handler sample_client (simple_request ''get_lists'' [(''boardId'', Str ''b2'')])) =
     At 7 (Inr (Fallthrough (Arr [Obj todo_list])))"
    by (simp add: run_defs simple_request_def sample_client_def objects_def)
  show ?thesis
    using a b by (simp only: todo_lists_text) simp
qed

lemma bind_await_pure:
  "bind (await c p) (\<lambda>v. pure (g v)) =
     ([c], case p of Never \<Rightarrow> Never
           | At t (Inl e) \<Rightarrow> At t (Inl e)
           | At t (Inr v) \<Rightarrow> At t (Inr (g v)))"
  by (simp add: await_def bind_pure)

lemma legacy_get_lists:
  "dispatch up (Str ''get_lists'') params =
     ([GetLists (get params ''boardId'')],
      case getLists up (get params ''boardId'') of
        Never \<Rightarrow> Never
      | At t (Inl e) \<Rightarrow> At t (Inl e)
      | At t (Inr v) \<Rightarrow> At t (Inr (Fallthrough (objects v))))"
  by (simp add: dispatch_def bind_await_pure)

lemma tool_get_lists:
  "get params ''name'' = Str ''get_lists'' \<Longrightarrow>
   or_else (get params ''arguments'') (Obj []) = args \<Longrightarrow>
   tools_call up params =
     ([GetLists (get args ''boardId'')],
      case getLists up (get args ''boardId'') of
        Never \<Rightarrow> Never
      | At t (Inl e) \<Rightarrow> At t (Inl e)
      | At t (Inr v) \<Rightarrow> At t (Inr (Fallthrough (JSON_stringify (objects v)))))"
  by (simp add: tools_call_def template_simps bind_lift bind_await_pure)

lemma legacy_get_cards:
  "dispatch up (Str ''get_cards_by_list_id'') params =
     ([GetCardsByList (get params ''boardId'') (get params ''listId'')],
      case other up (GetCardsByList (get params ''boardId'') (get params ''listId'')) of
        Never \<Rightarrow> Never
      | At t (Inl e) \<Rightarrow> At t (Inl e)
      | At t (Inr v) \<Rightarrow> At t (Inr (Fallthrough v)))"
  by (simp add: dispatch_def result_of_def call_def bind_await_pure)

lemma tool_get_cards:
  "get params ''name'' = Str ''get_cards_by_list_id'' \<Longrightarrow>
   or_else (get params ''arguments'') (Obj []) = args \<Longrightarrow>
   tools_call up params =
     ([GetCardsByList (get args ''boardId'') (get args ''listId'')],
      case other up (GetCardsByList (get args ''boardId'') (get args ''listId'')) of
        Never \<Rightarrow> Never
      | At t (Inl e) \<Rightarrow> At t (Inl e)
      | At t (Inr v) \<Rightarrow> At t (Inr (Fallthrough (JSON_stringify v))))"
  by (simp add: tools_call_def template_simps bind_lift call_def bind_await_pure)

lemma tool_create_card:
  "get params ''name'' = Str ''create_card'' \<Longrightarrow>
   or_else (get params ''arguments'') (Obj []) = args \<Longrightarrow>
   fst (tools_call up params) =
     [AddCard (get args ''boardId'')
        (Obj [(''listId'', get args ''listId''), (''name'', get args ''name''),
              (''description'', get args ''desc'')])]"
  by (simp add: tools_call_def template_simps bind_lift call_def bind_await_pure)

text \<open>
  C5 as amended: for \<^verbatim>\<open>get_lists\<close> and \<^verbatim>\<open>get_cards_by_list_id\<close> and every
  argument mapping, the call through \<^verbatim>\<open>tools/call\<close> makes the same client call as
  the legacy request, ends at the same time and fails with the same error, and where the
  legacy request has the result \<open>r\<close> its result is \<^verbatim>\<open>JSON.stringify(r)\<close>.
\<close>

theorem tools_call_stringifies_legacy_result:
  assumes "is_tool_call toolBody (Str n) args"
    and "field legacyBody ''method'' = Str n"
    and "or_else (field legacyBody ''params'') (Obj []) = args"
    and "n = ''get_lists'' \<or> n = ''get_cards_by_list_id''"
  shows "fst (handler up toolBody) = fst (handler up legacyBody)
    \<and> (snd (handler up legacyBody) = Never \<longrightarrow> snd (handler up toolBody) = Never)
    \<and> (snd (handler up legacyBody) = At t (Inl e) \<longrightarrow> snd (handler up toolBody) = At t (Inl e))
    \<and> (snd (handler up legacyBody) = At t (Inr (Fallthrough r)) \<longrightarrow>
         snd (handler up toolBody) = At t (Inr (Fallthrough (JSON_stringify r))))
    \<and> snd (handler up legacyBody) \<noteq> At t (Inr (Return resp))"
proof -
  have l: "handler up legacyBody = dispatch up (Str n) args"
    using assms(2,3,4) handler_dispatch [of legacyBody up] by auto
  have t: "handler up toolBody = tools_call up (or_else (field toolBody ''params'') (Obj []))"
    by (rule handler_tool_call [OF assms(1)])
  have p: "get (or_else (field toolBody ''params'') (Obj [])) ''name'' = Str n"
    "or_else (get (or_else (field toolBody ''params'') (Obj [])) ''arguments'') (Obj []) = args"
    using assms(1) by (simp_all add: is_tool_call_def)
  from assms(4) show ?thesis
  proof
    assume n: "n = ''get_lists''"
    show ?thesis
      unfolding l t n tool_get_lists [OF p [unfolded n]] legacy_get_lists
      by (simp split: step.splits sum.splits)
  next
    assume n: "n = ''get_cards_by_list_id''"
    show ?thesis
      unfolding l t n tool_get_cards [OF p [unfolded n]] legacy_get_cards
      by (simp split: step.splits sum.splits)
  qed
qed

text \<open>
  The two requests for the lists of \<open>b2\<close>, which arrive; of \<open>b3\<close>, which fail;
  and of \<open>b2\<close> on a client whose lists never arrive.
\<close>

theorem tools_call_stringifies_legacy_result_witness:
  \<open>is_tool_call (tool_request (Num 1) ''get_lists'' [(''boardId'', Str ''b2'')]) (Str ''get_lists'')
      (Obj [(''boardId'', Str ''b2'')])
   \<and> field (simple_request ''get_lists'' [(''boardId'', Str ''b2'')]) ''method'' = Str ''get_lists''
   \<and> or_else (field (simple_request ''get_lists'' [(''boardId'', Str ''b2'')]) ''params'') (Obj [])
       = Obj [(''boardId'', Str ''b2'')]
   \<and> snd (handler sample_client (simple_request ''get_lists'' [(''boardId'', Str ''b2'')])) =
       At 7 (Inr (Fallthrough (Arr [Obj todo_list])))
   \<and> snd (handler sample_client (tool_request (Num 1) ''get_lists'' [(''boardId'', Str ''b2'')])) =
       At 7 (Inr (Fallthrough (JSON_stringify (Arr [Obj todo_list]))))
   \<and> fst (handler sample_client (tool_request (Num 1) ''get_lists'' [(''boardId'', Str ''b2'')])) =
       fst (handler sample_client (simple_request ''get_lists'' [(''boardId'', Str ''b2'')]))
   \<and> is_tool_call (tool_request (Num 2) ''get_lists'' [(''boardId'', Str ''b3'')]) (Str ''get_lists'')
      (Obj [(''boardId'', Str ''b3'')])
   \<and> field (simple_request ''get_lists'' [(''boardId'', Str ''b3'')]) ''method'' = Str ''get_lists''
   \<and> or_else (field (simple_request ''get_lists'' [(''boardId'', Str ''b3'')]) ''params'') (Obj [])
       = Obj [(''boardId'', Str ''b3'')]
   \<and> snd (handler sample_client (simple_request ''get_lists'' [(''boardId'', Str ''b3'')])) =
       At 4000 (Inl (Error ''socket hang up''))
   \<and> snd (handler sample_client (tool_request (Num 2) ''get_lists'' [(''boardId'', Str ''b3'')])) =
       At 4000 (Inl (Error ''socket hang up''))
   \<and> snd (handler (sample_client\<lparr>getLists := \<lambda>i. Never\<rparr>)
             (simple_request ''get_lists'' [(''boardId'', Str ''b2'')])) = Never
   \<and> snd (handler (sample_client\<lparr>getLists := \<lambda>i. Never\<rparr>)
             (tool_request (Num 1) ''get_lists'' [(''boardId'', Str ''b2'')])) = Never\<close>
proof -
  let ?tool = "tool_request (Num 1) ''get_lists'' [(''boardId'', Str ''b2'')]"
  let ?legacy = "simple_request ''get_lists'' [(''boardId'', Str ''b2'')]"
  let ?tool3 = "tool_request (Num 2) ''get_lists'' [(''boardId'', Str ''b3'')]"
  let ?legacy3 = "simple_request ''get_lists'' [(''boardId'', Str ''b3'')]"
  let ?mute = "sample_client\<lparr>getLists := \<lambda>i. Never\<rparr>"
  have c: "is_tool_call ?tool (Str ''get_lists'') (Obj [(''boardId'', Str ''b2'')])"
    by (simp add: is_tool_call_def tool_request_def field_def or_else_def)
  have m: "field ?legacy ''method'' = Str ''get_lists''"
    by (simp add: simple_request_def field_def)
  have p: "or_else (field ?legacy ''params'') (Obj []) = Obj [(''boardId'', Str ''b2'')]"
    by (simp add: simple_request_def field_def or_else_def)
  have c3: "is_tool_call ?tool3 (Str ''get_lists'') (Obj [(''boardId'', Str ''b3'')])"
    by (simp add: is_tool_call_def tool_request_def field_def or_else_def)
  have m3: "field ?legacy3 ''method'' = Str ''get_lists''"
    by (simp add: simple_request_def field_def)
  have p3: "or_else (field ?legacy3 ''params'') (Obj []) = Obj [(''boardId'', Str ''b3'')]"
    by (simp add: simple_request_def field_def or_else_def)
  have n: "''get_lists'' = ''get_lists'' \<or> ''get_lists'' = ''get_cards_by_list_id''"
    by simp
  have l: "snd (handler sample_client ?legacy) = At 7 (Inr (Fallthrough (Arr [Obj todo_list])))"
    by (simp add: run_defs simple_request_def sample_client_def objects_def)
  have l3: "snd (handler sample_client ?legacy3) = At 4000 (Inl (Error ''socket hang up''))"
    by (simp add: run_defs simple_request_def sample_client_def objects_def)
  have lm: "snd (handler ?mute ?legacy) = Never"
    by (simp add: run_defs simple_request_def objects_def)
  show ?thesis
    using c m p l c3 m3 p3 l3 lm
      tools_call_stringifies_legacy_result [OF c m p n, of sample_client 7 _ "Arr [Obj todo_list]"]
      tools_call_stringifies_legacy_result [OF c3 m3 p3 n, of sample_client 4000
        "Error ''socket hang up''"]
      tools_call_stringifies_legacy_result [OF c m p n, of ?mute]
    by simp
qed

section \<open>Unknown methods and unknown tools (C6)\<close>

text \<open>
  C6 says that an unknown method and an unknown tool are both reported with status 400
  and a message naming the offender. The unknown tool is thrown as an error inside
  \<^verbatim>\<open>tools/call\<close> and leaves through the \<^verbatim>\<open>catch\<close> block: its status is 500.
\<close>

theorem unknown_tool_is_500_counterexample:
  "map status (responses (post_mcp sample_client (tool_request (Num 1) ''nope'' []))) = [500]"
  by (simp add: run_defs respond_defs tool_request_def)

text \<open>
  C6 as amended: a method that is truthy, converts to a string (as every string does) and
  is none of the names of the \<^verbatim>\<open>switch\<close> is answered with status 400 and the body \<^verbatim>\<open>{error: "Unknown method: <method>"}\<close>; a
  \<^verbatim>\<open>tools/call\<close> whose tool name converts to a string and is none of the six tools
  is answered with status 500
  and the message \<^verbatim>\<open>Unknown tool: <name>\<close>, in a JSON-RPC error envelope with code
  -32603 when the request was JSON-RPC shaped and in a plain \<^verbatim>\<open>{error: message}\<close>
  body otherwise. No client call is made in either case.
\<close>

theorem unknown_method_400_unknown_tool_500:
  "(truthy method \<and> convertible method \<and> field reqBody ''method'' = method
    \<and> method \<notin> Str ` set known_methods
      \<longrightarrow> post_mcp up reqBody =
            \<lparr>client_calls = [],
             responses = [\<lparr>status = 400,
                           body = Obj [(''error'', Str (''Unknown method: '' @ js_string method))]\<rparr>],
             unhandled = []\<rparr>)
   \<and> (is_tool_call reqBody toolName toolArguments \<and> convertible toolName
    \<and> toolName \<notin> Str ` set tool_names
      \<longrightarrow> post_mcp up reqBody =
            \<lparr>client_calls = [],
             responses = [\<lparr>status = 500,
                           body = (if is_rpc reqBody
                                   then Obj [(''jsonrpc'', Str ''2.0''),
                                             (''error'', Obj [(''code'', Num (- 32603)),
                                                (''message'', Str (''Unknown tool: '' @ js_string toolName))]),
                                             (''id'', or_else (field reqBody ''id'') Null)]
                                   else Obj [(''error'', Str (''Unknown tool: '' @ js_string toolName))])\<rparr>],
             unhandled = []\<rparr>)"
proof (intro conjI impI)
  assume a: "truthy method \<and> convertible method \<and> field reqBody ''method'' = method
    \<and> method \<notin> Str ` set known_methods"
  then have "handler up reqBody =
      ([], At 0 (Inr (Return \<lparr>status = 400,
                  body = Obj [(''error'', Str (''Unknown method: '' @ js_string method))]\<rparr>)))"
    using handler_dispatch [of reqBody up] dispatch_unknown [of "method" "up"]
    by (simp add: pure_def)
  then show "post_mcp up reqBody =
            \<lparr>client_calls = [],
             responses = [\<lparr>status = 400,
                           body = Obj [(''error'', Str (''Unknown method: '' @ js_string method))]\<rparr>],
             unhandled = []\<rparr>"
    by (rule post_mcp_return) (simp add: request_timeout_ms_def)
next
  assume a: "is_tool_call reqBody toolName toolArguments \<and> convertible toolName
    \<and> toolName \<notin> Str ` set tool_names"
  then have "handler up reqBody = ([], At 0 (Inl (Error (''Unknown tool: '' @ js_string toolName))))"
    using handler_tool_call [of reqBody toolName toolArguments up]
      tools_call_unknown [of "or_else (field reqBody ''params'') (Obj [])" up]
    by (simp add: throw_def is_tool_call_def)
  then have "post_mcp up reqBody =
    \<lparr>client_calls = [],
     responses = [error_response reqBody (Error (''Unknown tool: '' @ js_string toolName))],
     unhandled = []\<rparr>"
    by (rule post_mcp_threw) (simp add: request_timeout_ms_def)
  then show "post_mcp up reqBody =
            \<lparr>client_calls = [],
             responses = [\<lparr>status = 500,
                           body = (if is_rpc reqBody
                                   then Obj [(''jsonrpc'', Str ''2.0''),
                                             (''error'', Obj [(''code'', Num (- 32603)),
                                                (''message'', Str (''Unknown tool: '' @ js_string toolName))]),
                                             (''id'', or_else (field reqBody ''id'') Null)]
                                   else Obj [(''error'', Str (''Unknown tool: '' @ js_string toolName))])\<rparr>],
             unhandled = []\<rparr>"
    by (simp add: error_response_def error_message_def)
qed

text \<open>
  The method \<^verbatim>\<open>create_card\<close> is a tool but no method of the \<^verbatim>\<open>switch\<close>; the tool
  \<^verbatim>\<open>archive_card\<close> is a method but no tool.
\<close>

theorem unknown_method_400_unknown_tool_500_witness:
  "(truthy (Str ''create_card'') \<and> convertible (Str ''create_card'')
    \<and> field (simple_request ''create_card'' []) ''method'' = Str ''create_card''
    \<and> Str ''create_card'' \<notin> Str ` set known_methods)
   \<and> post_mcp sample_client (simple_request ''create_card'' []) =
        \<lparr>client_calls = [],
         responses = [\<lparr>status = 400,
                       body = Obj [(''error'', Str ''Unknown method: create_card'')]\<rparr>],
         unhandled = []\<rparr>
   \<and> (is_tool_call (tool_request (Num 3) ''archive_card'' []) (Str ''archive_card'') (Obj [])
    \<and> convertible (Str ''archive_card'')
    \<and> Str ''archive_card'' \<notin> Str ` set tool_names)
   \<and> post_mcp sample_client (tool_request (Num 3) ''archive_card'' []) =
        \<lparr>client_calls = [],
         responses = [\<lparr>status = 500,
                       body = Obj [(''jsonrpc'', Str ''2.0''),
                                   (''error'', Obj [(''code'', Num (- 32603)),
                                                   (''message'', Str ''Unknown tool: archive_card'')]),
                                   (''id'', Num 3)]\<rparr>],
         unhandled = []\<rparr>"
proof -
  have m: "truthy (Str ''create_card'') \<and> convertible (Str ''create_card'')
    \<and> field (simple_request ''create_card'' []) ''method'' = Str ''create_card''
    \<and> Str ''create_card'' \<notin> Str ` set known_methods"
    by (simp add: simple_request_def field_def known_methods_def)
  have t: "is_tool_call (tool_request (Num 3) ''archive_card'' []) (Str ''archive_card'') (Obj [])
    \<and> convertible (Str ''archive_card'')
    \<and> Str ''archive_card'' \<notin> Str ` set tool_names"
    by (simp add: is_tool_call_def tool_request_def field_def or_else_def tool_names_def)
  show ?thesis
    using m t
      unknown_method_400_unknown_tool_500 [of "Str ''create_card''"
        "simple_request ''create_card'' []" sample_client "Str ''archive_card''" "Obj []"]
      unknown_method_400_unknown_tool_500 [of "Str ''create_card''"
        "tool_request (Num 3) ''archive_card'' []" sample_client "Str ''archive_card''" "Obj []"]
    by (simp add: is_rpc_def tool_request_def field_def or_else_def)
qed

section \<open>A request without a method (C7)\<close>

text \<open>
  C7 says that a request in the simple format whose method is missing or empty gets
  status 400 and a plain \<^verbatim>\<open>{error: message}\<close> body with no \<^verbatim>\<open>jsonrpc\<close> and no
  \<^verbatim>\<open>id\<close> field. The body the handler sends has both fields: for the empty body
  \<^verbatim>\<open>{}\<close> it is \<^verbatim>\<open>{error, jsonrpc: "2.0", id: null}\<close>.
\<close>

theorem missing_method_body_counterexample:
  "responses (post_mcp sample_client []) =
     [\<lparr>status = 400,
       body = Obj [(''error'', Str ''Method is required''),
                   (''jsonrpc'', Str ''2.0''),
                   (''id'', Null)]\<rparr>]"
  by (simp add: run_defs respond_defs)

text \<open>
  C7 as amended: a request in the simple format whose method is missing or empty (falsy)
  is answered with status 400 and the body
  \<^verbatim>\<open>{error: "Method is required", jsonrpc: "2.0", id: null}\<close>; it is the only response,
  no client call is made and nothing is thrown.
\<close>

theorem missing_method_400:
  "\<not> is_rpc reqBody \<Longrightarrow> \<not> truthy (field reqBody ''method'') \<Longrightarrow>
   post_mcp up reqBody =
     \<lparr>client_calls = [],
      responses = [\<lparr>status = 400,
                    body = Obj [(''error'', Str ''Method is required''),
                                (''jsonrpc'', Str ''2.0''),
                                (''id'', Null)]\<rparr>],
      unhandled = []\<rparr>"
  by (simp add: post_mcp_def handler_def pure_def lift_def template_def bind_simps
      request_id_def or_else_def request_timeout_ms_def res_json_def headersSent_def
      on_timeout_def)

text \<open>The body \<^verbatim>\<open>{"method": "", "params": {}}\<close>.\<close>

theorem missing_method_400_witness:
  "\<not> is_rpc (simple_request [] []) \<and> \<not> truthy (field (simple_request [] []) ''method'')
   \<and> post_mcp sample_client (simple_request [] []) =
     \<lparr>client_calls = [],
      responses = [\<lparr>status = 400,
                    body = Obj [(''error'', Str ''Method is required''),
                                (''jsonrpc'', Str ''2.0''),
                                (''id'', Null)]\<rparr>],
      unhandled = []\<rparr>"
proof -
  have a: "\<not> is_rpc (simple_request [] [])"
    by (simp add: is_rpc_def simple_request_def field_def)
  have b: "\<not> truthy (field (simple_request [] []) ''method'')"
    by (simp add: simple_request_def field_def)
  show ?thesis using a b missing_method_400 [OF a b, of sample_client] by simp
qed

section \<open>The board id of a tool invocation (C8)\<close>

text \<open>
  C8 says that a tool that needs a board id and is given none falls back to the active
  board id, and fails with a missing-context error, without a client call, when that is
  unset too. The handler passes \<^verbatim>\<open>toolArguments.boardId\<close> to the client as it is:
  with the active board \<open>b1\<close>, and with none, \<^verbatim>\<open>get_cards_by_list_id\<close> without
  a board id calls the client with an undefined board id.
\<close>

theorem board_id_not_defaulted_counterexample:
  \<open>activeBoardId sample_client = Str ''b1''
   \<and> client_calls (post_mcp sample_client
        (tool_request (Num 1) ''get_cards_by_list_id'' [(''listId'', Str ''l1'')])) =
       [GetCardsByList Undefined (Str ''l1'')]
   \<and> post_mcp (sample_client\<lparr>activeBoardId := Undefined\<rparr>)
        (tool_request (Num 1) ''get_cards_by_list_id'' [(''listId'', Str ''l1'')]) =
       \<lparr>client_calls = [GetCardsByList Undefined (Str ''l1'')],
        responses = [\<lparr>status = 200,
                      body = Obj [(''jsonrpc'', Str ''2.0''),
                                  (''result'', Str ''[]''),
                                  (''id'', Num 1)]\<rparr>],
        unhandled = []\<rparr>\<close>
  by (simp add: run_defs respond_defs tool_request_def sample_client_def call_def
      JSON_stringify_def)

lemma handler_active_board_info:
  assumes "field reqBody ''method'' = Str ''get_active_board_info''"
  shows "handler up reqBody =
    (if \<not> truthy (activeBoardId up)
     then ([], At 0 (Inr (Return \<lparr>status = 400,
                                  body = Obj [(''error'', Str ''No active board set'')]\<rparr>)))
     else ([GetBoardById (activeBoardId up)],
           case getBoardById up (activeBoardId up) of
             Never \<Rightarrow> Never
           | At t (Inl e) \<Rightarrow> At t (Inl e)
           | At t (Inr board) \<Rightarrow> At t (Inr (Fallthrough (Obj board)))))"
  using assms handler_dispatch [of reqBody up]
  by (simp add: dispatch_def Let_def bind_await_pure) (simp add: pure_def)

text \<open>
  C8 as amended: \<^verbatim>\<open>get_active_board_info\<close> reads the active board id of the client;
  when it is unset the request is answered with status 400 and
  \<^verbatim>\<open>{error: "No active board set"}\<close> and no client call is made, otherwise the board
  of that id is asked for. The tools \<^verbatim>\<open>get_cards_by_list_id\<close>, \<^verbatim>\<open>get_lists\<close> and
  \<^verbatim>\<open>create_card\<close> pass the \<^verbatim>\<open>boardId\<close> of their arguments to the client
  unchanged, also when it is undefined.
\<close>

theorem board_id_passed_to_client:
  "(field reqBody ''method'' = Str ''get_active_board_info'' \<and> \<not> truthy (activeBoardId up) \<longrightarrow>
      post_mcp up reqBody =
        \<lparr>client_calls = [],
         responses = [\<lparr>status = 400, body = Obj [(''error'', Str ''No active board set'')]\<rparr>],
         unhandled = []\<rparr>)
   \<and> (field reqBody ''method'' = Str ''get_active_board_info'' \<and> truthy (activeBoardId up) \<longrightarrow>
      client_calls (post_mcp up reqBody) = [GetBoardById (activeBoardId up)])
   \<and> (is_tool_call reqBody (Str ''get_cards_by_list_id'') args \<longrightarrow>
      client_calls (post_mcp up reqBody) =
        [GetCardsByList (get args ''boardId'') (get args ''listId'')])
   \<and> (is_tool_call reqBody (Str ''get_lists'') args \<longrightarrow>
      client_calls (post_mcp up reqBody) = [GetLists (get args ''boardId'')])
   \<and> (is_tool_call reqBody (Str ''create_card'') args \<longrightarrow>
      client_calls (post_mcp up reqBody) =
        [AddCard (get args ''boardId'')
           (Obj [(''listId'', get args ''listId''), (''name'', get args ''name''),
                 (''description'', get args ''desc'')])])"
proof (intro conjI impI)
  assume a: "field reqBody ''method'' = Str ''get_active_board_info'' \<and> \<not> truthy (activeBoardId up)"
  then have "handler up reqBody =
     ([], At 0 (Inr (Return \<lparr>status = 400,
                              body = Obj [(''error'', Str ''No active board set'')]\<rparr>)))"
    using handler_active_board_info [of reqBody up] by simp
  then show "post_mcp up reqBody =
        \<lparr>client_calls = [],
         responses = [\<lparr>status = 400, body = Obj [(''error'', Str ''No active board set'')]\<rparr>],
         unhandled = []\<rparr>"
    by (rule post_mcp_return) (simp add: request_timeout_ms_def)
next
  assume "field reqBody ''method'' = Str ''get_active_board_info'' \<and> truthy (activeBoardId up)"
  then show "client_calls (post_mcp up reqBody) = [GetBoardById (activeBoardId up)]"
    using handler_active_board_info [of reqBody up] by (simp add: client_calls_post_mcp)
next
  assume a: "is_tool_call reqBody (Str ''get_cards_by_list_id'') args"
  show "client_calls (post_mcp up reqBody) =
        [GetCardsByList (get args ''boardId'') (get args ''listId'')]"
    using a handler_tool_call [OF a, of up]
      tool_get_cards [of "or_else (field reqBody ''params'') (Obj [])" args up]
    by (simp add: client_calls_post_mcp is_tool_call_def)
next
  assume a: "is_tool_call reqBody (Str ''get_lists'') args"
  show "client_calls (post_mcp up reqBody) = [GetLists (get args ''boardId'')]"
    using a handler_tool_call [OF a, of up]
      tool_get_lists [of "or_else (field reqBody ''params'') (Obj [])" args up]
    by (simp add: client_calls_post_mcp is_tool_call_def)
next
  assume a: "is_tool_call reqBody (Str ''create_card'') args"
  show "client_calls (post_mcp up reqBody) =
        [AddCard (get args ''boardId'')
           (Obj [(''listId'', get args ''listId''), (''name'', get args ''name''),
                 (''description'', get args ''desc'')])]"
    using a handler_tool_call [OF a, of up]
      tool_create_card [of "or_else (field reqBody ''params'') (Obj [])" args up]
    by (simp add: client_calls_post_mcp is_tool_call_def)
qed

text \<open>Requests without a board id, on the sample client with and without an active board.\<close>

theorem board_id_passed_to_client_witness:
  "field (simple_request ''get_active_board_info'' []) ''method'' = Str ''get_active_board_info''
   \<and> \<not> truthy (activeBoardId (sample_client\<lparr>activeBoardId := Undefined\<rparr>))
   \<and> post_mcp (sample_client\<lparr>activeBoardId := Undefined\<rparr>)
        (simple_request ''get_active_board_info'' []) =
        \<lparr>client_calls = [],
         responses = [\<lparr>status = 400, body = Obj [(''error'', Str ''No active board set'')]\<rparr>],
         unhandled = []\<rparr>
   \<and> truthy (activeBoardId sample_client)
   \<and> client_calls (post_mcp sample_client (simple_request ''get_active_board_info'' [])) =
        [GetBoardById (Str ''b1'')]
   \<and> is_tool_call (tool_request (Num 1) ''get_cards_by_list_id'' [(''listId'', Str ''l1'')])
        (Str ''get_cards_by_list_id'') (Obj [(''listId'', Str ''l1'')])
   \<and> client_calls (post_mcp sample_client
        (tool_request (Num 1) ''get_cards_by_list_id'' [(''listId'', Str ''l1'')])) =
        [GetCardsByList Undefined (Str ''l1'')]
   \<and> is_tool_call (tool_request (Num 2) ''get_lists'' []) (Str ''get_lists'') (Obj [])
   \<and> client_calls (post_mcp sample_client (tool_request (Num 2) ''get_lists'' [])) =
        [GetLists Undefined]
   \<and> is_tool_call
        (tool_request (Num 3) ''create_card'' [(''listId'', Str ''l1''), (''name'', Str ''Fix bug'')])
        (Str ''create_card'') (Obj [(''listId'', Str ''l1''), (''name'', Str ''Fix bug'')])
   \<and> client_calls (post_mcp sample_client
        (tool_request (Num 3) ''create_card'' [(''listId'', Str ''l1''), (''name'', Str ''Fix bug'')])) =
        [AddCard Undefined
           (Obj [(''listId'', Str ''l1''), (''name'', Str ''Fix bug''), (''description'', Undefined)])]"
proof -
  let ?info = "simple_request ''get_active_board_info'' []"
  let ?cards = "tool_request (Num 1) ''get_cards_by_list_id'' [(''listId'', Str ''l1'')]"
  let ?lists = "tool_request (Num 2) ''get_lists'' []"
  let ?card = "tool_request (Num 3) ''create_card'' [(''listId'', Str ''l1''), (''name'', Str ''Fix bug'')]"
  have m: "field ?info ''method'' = Str ''get_active_board_info''"
    by (simp add: simple_request_def field_def)
  have u: "\<not> truthy (activeBoardId (sample_client\<lparr>activeBoardId := Undefined\<rparr>))"
    by simp
  have s: "truthy (activeBoardId sample_client)" "activeBoardId sample_client = Str ''b1''"
    by (simp_all add: sample_client_def)
  have c1: "is_tool_call ?cards (Str ''get_cards_by_list_id'') (Obj [(''listId'', Str ''l1'')])"
    by (simp add: is_tool_call_def tool_request_def field_def or_else_def)
  have c2: "is_tool_call ?lists (Str ''get_lists'') (Obj [])"
    by (simp add: is_tool_call_def tool_request_def field_def or_else_def)
  have c3: "is_tool_call ?card (Str ''create_card'')
      (Obj [(''listId'', Str ''l1''), (''name'', Str ''Fix bug'')])"
    by (simp add: is_tool_call_def tool_request_def field_def or_else_def)
  show ?thesis
    using m u s c1 c2 c3
      board_id_passed_to_client [of ?info "sample_client\<lparr>activeBoardId := Undefined\<rparr>" "Obj []"]
      board_id_passed_to_client [of ?info sample_client "Obj []"]
      board_id_passed_to_client [of ?cards sample_client "Obj [(''listId'', Str ''l1'')]"]
      board_id_passed_to_client [of ?lists sample_client "Obj []"]
      board_id_passed_to_client [of ?card sample_client
        "Obj [(''listId'', Str ''l1''), (''name'', Str ''Fix bug'')]"]
    by simp
qed

section \<open>One response for each request (C9)\<close>

text \<open>
  C9: at most one response is written for a request. When the handler has not finished
  when the request timer fires, the one response is the timeout error, with status 500
  and the JSON-RPC code -32603; once a response is written, the later completion of the
  handler writes none, and the timer writes none.
\<close>

theorem single_response:
  "length (responses (post_mcp up reqBody)) \<le> 1
   \<and> (unsettled_at request_timeout_ms (snd (handler up reqBody))
        \<longrightarrow> responses (post_mcp up reqBody) = [timeout_response reqBody])
   \<and> status (timeout_response reqBody) = 500
   \<and> get (get (body (timeout_response reqBody)) ''error'') ''code'' = Num (- 32603)
   \<and> (headersSent rs \<longrightarrow> sent (complete reqBody r rs) = sent rs)
   \<and> (headersSent rs \<longrightarrow> on_timeout reqBody rs = rs)"
proof -
  have "length (responses (post_mcp up reqBody)) \<le> 1"
  proof (cases "unsettled_at request_timeout_ms (snd (handler up reqBody))")
    case True
    then show ?thesis by (simp add: post_mcp_late)
  next
    case False
    then obtain t r where "snd (handler up reqBody) = At t r" "t < request_timeout_ms"
      by (cases "snd (handler up reqBody)") auto
    then show ?thesis by (simp add: post_mcp_early_length)
  qed
  then show ?thesis
    by (simp add: post_mcp_late complete_after_sent on_timeout_def timeout_response_def)
qed

text \<open>
  \<^verbatim>\<open>fetch\<close> of \<open>b3\<close>: the board is not found after 5 ms and the lists fail after
  4 more seconds, when the timer has answered. The error of the handler then reaches
  the \<^verbatim>\<open>catch\<close> block, which writes nothing more.
\<close>

theorem single_response_witness:
  "unsettled_at request_timeout_ms
     (snd (handler sample_client (tool_request (Num 7) ''fetch'' [(''id'', Str ''b3'')])))
   \<and> headersSent \<lparr>sent = [timeout_response (tool_request (Num 7) ''fetch'' [(''id'', Str ''b3'')])],
                  escaped = []\<rparr>
   \<and> responses (post_mcp sample_client (tool_request (Num 7) ''fetch'' [(''id'', Str ''b3'')])) =
       [\<lparr>status = 500,
         body = Obj [(''jsonrpc'', Str ''2.0''),
                     (''error'', Obj [(''code'', Num (- 32603)),
                                     (''message'', Str ''Request timeout'')]),
                     (''id'', Num 7)]\<rparr>]
   \<and> sent (complete (tool_request (Num 7) ''fetch'' [(''id'', Str ''b3'')])
             (Inl (Error ''No resource found with ID b3''))
             \<lparr>sent = [timeout_response (tool_request (Num 7) ''fetch'' [(''id'', Str ''b3'')])],
              escaped = []\<rparr>) =
       [timeout_response (tool_request (Num 7) ''fetch'' [(''id'', Str ''b3'')])]"
proof -
  let ?req = "tool_request (Num 7) ''fetch'' [(''id'', Str ''b3'')]"
  let ?rs = "\<lparr>sent = [timeout_response ?req], escaped = []\<rparr>"
  have late: "unsettled_at request_timeout_ms (snd (handler sample_client ?req))"
    by (simp add: run_defs fetch_tool_def not_found_def tool_request_def sample_client_def
        request_timeout_ms_def)
  have hs: "headersSent ?rs"
    by (simp add: headersSent_def)
  show ?thesis
    using late hs
      single_response [of sample_client ?req ?rs "Inl (Error ''No resource found with ID b3'')"]
    by (simp add: timeout_response_def tool_request_def field_def or_else_def)
qed

section \<open>\<^verbatim>\<open>search\<close> without a query (C10)\<close>

lemma search_tool_no_query:
  assumes "get toolArguments ''query'' = Undefined"
  shows "search_tool up toolArguments =
    ([ListBoards],
     case listBoards up of
       Never \<Rightarrow> Never
     | At t (Inl e) \<Rightarrow> At t (Inl e)
     | At t (Inr boards) \<Rightarrow>
         At t (Inl (TypeError ''Cannot read properties of undefined (reading 'toLowerCase')'')))"
  using assms
  by (simp add: search_tool_def await_def lift_def bind_simps split: step.splits sum.splits)

lemma error_response_status: "status (error_response reqBody e) = 500"
  by (simp add: error_response_def)

lemma error_response_code:
  "is_rpc reqBody \<Longrightarrow> get (get (body (error_response reqBody e)) ''error'') ''code'' = Num (- 32603)"
  by (simp add: error_response_def)

lemma timeout_response_status: "status (timeout_response reqBody) = 500"
  by (simp add: timeout_response_def)

lemma timeout_response_code:
  "get (get (body (timeout_response reqBody)) ''error'') ''code'' = Num (- 32603)"
  by (simp add: timeout_response_def)

lemma failing_handler_responses:
  assumes "snd (handler up reqBody) = Never \<or> (\<exists>t e. snd (handler up reqBody) = At t (Inl e))"
  shows "responses (post_mcp up reqBody) = [timeout_response reqBody]
       \<or> (\<exists>e. responses (post_mcp up reqBody) = [error_response reqBody e])"
proof (cases "unsettled_at request_timeout_ms (snd (handler up reqBody))")
  case True
  then show ?thesis by (simp add: post_mcp_late)
next
  case False
  with assms obtain t e where te: "snd (handler up reqBody) = At t (Inl e)" "t < request_timeout_ms"
    by auto
  then have "handler up reqBody = (fst (handler up reqBody), At t (Inl e))"
    by (simp add: prod_eq_iff)
  from post_mcp_threw [OF this te(2)]
  have "responses (post_mcp up reqBody) = [error_response reqBody e]" by simp
  then show ?thesis by blast
qed

text \<open>
  C10 says that every \<^verbatim>\<open>search\<close> whose arguments have no \<^verbatim>\<open>query\<close> raises the
  type error of lowering the missing argument. The listing of the boards is awaited
  before the argument is read: when the listing fails, its error is the one raised and
  answered, and when it stays pending nothing is raised.
\<close>

theorem search_without_query_listing_fails_counterexample:
  "handler (sample_client\<lparr>listBoards := At 10 (Inl (Error ''Trello is down''))\<rparr>)
     (tool_request (Num 4) ''search'' []) =
     ([ListBoards], At 10 (Inl (Error ''Trello is down'')))
   \<and> post_mcp (sample_client\<lparr>listBoards := At 10 (Inl (Error ''Trello is down''))\<rparr>)
        (tool_request (Num 4) ''search'' []) =
       \<lparr>client_calls = [ListBoards],
        responses =
          [\<lparr>status = 500,
            body = Obj [(''jsonrpc'', Str ''2.0''),
                        (''error'', Obj [(''code'', Num (- 32603)),
                                        (''message'', Str ''Trello is down'')]),
                        (''id'', Num 4)]\<rparr>],
        unhandled = []\<rparr>
   \<and> handler (sample_client\<lparr>listBoards := Never\<rparr>) (tool_request (Num 4) ''search'' []) =
       ([ListBoards], Never)"
  by (simp add: run_defs respond_defs search_tool_def tool_request_def)

text \<open>
  C10 as amended: a \<^verbatim>\<open>search\<close> whose arguments have no \<^verbatim>\<open>query\<close> is answered
  with status 500, and with the code -32603 in the JSON-RPC format, never with 400. When
  the listing of the boards, which is awaited first, has arrived, the handler raises the
  type error of calling \<^verbatim>\<open>toLowerCase\<close> on undefined, and within the request timeout
  its message is the message of the response.
\<close>

theorem search_without_query_is_500:
  assumes "is_tool_call reqBody (Str ''search'') toolArguments"
    and "get toolArguments ''query'' = Undefined"
  shows
   "map status (responses (post_mcp up reqBody)) = [500]
    \<and> (is_rpc reqBody \<longrightarrow>
         map (\<lambda>r. get (get (body r) ''error'') ''code'') (responses (post_mcp up reqBody))
           = [Num (- 32603)])
    \<and> (listBoards up = At t (Inr boards) \<longrightarrow>
         handler up reqBody =
           ([ListBoards],
            At t (Inl (TypeError ''Cannot read properties of undefined (reading 'toLowerCase')''))))
    \<and> (listBoards up = At t (Inr boards) \<and> t < request_timeout_ms \<longrightarrow>
         post_mcp up reqBody =
           \<lparr>client_calls = [ListBoards],
            responses =
              [\<lparr>status = 500,
                body = (if is_rpc reqBody
                        then Obj [(''jsonrpc'', Str ''2.0''),
                                  (''error'', Obj [(''code'', Num (- 32603)),
                                     (''message'', Str ''Cannot read properties of undefined (reading 'toLowerCase')'')]),
                                  (''id'', or_else (field reqBody ''id'') Null)]
                        else Obj [(''error'', Str ''Cannot read properties of undefined (reading 'toLowerCase')'')])\<rparr>],
            unhandled = []\<rparr>)"
proof -
  have h: "handler up reqBody =
    ([ListBoards],
     case listBoards up of
       Never \<Rightarrow> Never
     | At t (Inl e) \<Rightarrow> At t (Inl e)
     | At t (Inr boards) \<Rightarrow>
         At t (Inl (TypeError ''Cannot read properties of undefined (reading 'toLowerCase')'')))"
    using handler_search [OF assms(1), of up] search_tool_no_query [OF assms(2), of up] by simp
  then have "snd (handler up reqBody) = Never \<or> (\<exists>t e. snd (handler up reqBody) = At t (Inl e))"
    by (simp split: step.splits sum.splits)
  from failing_handler_responses [OF this]
  have a: "map status (responses (post_mcp up reqBody)) = [500]"
    and b: "is_rpc reqBody \<longrightarrow>
         map (\<lambda>r. get (get (body r) ''error'') ''code'') (responses (post_mcp up reqBody))
           = [Num (- 32603)]"
    by (auto simp: error_response_status timeout_response_status error_response_code
        timeout_response_code)
  have c: "listBoards up = At t (Inr boards) \<longrightarrow>
         handler up reqBody =
           ([ListBoards],
            At t (Inl (TypeError ''Cannot read properties of undefined (reading 'toLowerCase')'')))"
    using h by simp
  have d: "listBoards up = At t (Inr boards) \<and> t < request_timeout_ms \<longrightarrow>
         post_mcp up reqBody =
           \<lparr>client_calls = [ListBoards],
            responses = [error_response reqBody
               (TypeError ''Cannot read properties of undefined (reading 'toLowerCase')'')],
            unhandled = []\<rparr>"
    using c post_mcp_threw [of up reqBody "[ListBoards]" t] by blast
  show ?thesis
    using a b c d by (simp add: error_response_def error_message_def)
qed

text \<open>The request \<^verbatim>\<open>search\<close> with the arguments \<^verbatim>\<open>{}\<close> on the sample client.\<close>

theorem search_without_query_is_500_witness:
  "is_tool_call (tool_request (Num 4) ''search'' []) (Str ''search'') (Obj [])
   \<and> get (Obj []) ''query'' = Undefined
   \<and> listBoards sample_client = At 10 (Inr [sav_board, projet_board])
   \<and> 10 < request_timeout_ms
   \<and> is_rpc (tool_request (Num 4) ''search'' [])
   \<and> map status (responses (post_mcp sample_client (tool_request (Num 4) ''search'' []))) = [500]
   \<and> map (\<lambda>r. get (get (body r) ''error'') ''code'')
         (responses (post_mcp sample_client (tool_request (Num 4) ''search'' [])))
       = [Num (- 32603)]
   \<and> handler sample_client (tool_request (Num 4) ''search'' []) =
       ([ListBoards],
        At 10 (Inl (TypeError ''Cannot read properties of undefined (reading 'toLowerCase')'')))
   \<and> post_mcp sample_client (tool_request (Num 4) ''search'' []) =
       \<lparr>client_calls = [ListBoards],
        responses =
          [\<lparr>status = 500,
            body = Obj [(''jsonrpc'', Str ''2.0''),
                        (''error'', Obj [(''code'', Num (- 32603)),
                           (''message'', Str ''Cannot read properties of undefined (reading 'toLowerCase')'')]),
                        (''id'', Num 4)]\<rparr>],
        unhandled = []\<rparr>"
proof -
  let ?req = "tool_request (Num 4) ''search'' []"
  have c: "is_tool_call ?req (Str ''search'') (Obj [])"
    by (simp add: is_tool_call_def tool_request_def field_def or_else_def)
  have q: "get (Obj []) ''query'' = Undefined"
    by simp
  have l: "listBoards sample_client = At 10 (Inr [sav_board, projet_board])"
    by (simp add: sample_client_def)
  have t: "10 < request_timeout_ms"
    by (simp add: request_timeout_ms_def)
  have r: "is_rpc ?req" "or_else (field ?req ''id'') Null = Num 4"
    by (simp_all add: is_rpc_def tool_request_def field_def or_else_def)
  show ?thesis
    using c q l t r
      search_without_query_is_500 [OF c q, of sample_client 10 "[sav_board, projet_board]"]
    by simp
qed

end
